theory Spec2Isabelle
  imports Complex_Main
begin

section \<open>Bitcoinish payments: data\<close>

text \<open>
  The model follows \<^verbatim>\<open>BitcoinishPayments.ts\<close>. Amounts in base units (satoshis) are
  JavaScript numbers that hold integers; they are \<open>int\<close> here. A fee rate is a string
  read by \<^verbatim>\<open>Number.parseFloat\<close>; the model carries the number it denotes as a \<open>rat\<close>,
  and products, quotients, \<^verbatim>\<open>Math.ceil\<close> and \<^verbatim>\<open>Math.floor\<close> are exact. On integers below
  \<open>2 ^ 53\<close> a double agrees with them. At a rate with a fraction the double product of
  rate and size can lie just above the exact one, and the fee that the source rounds up
  is then one base unit above the model's (1497 for 1496 at a rate of 4.4 and a size
  of 340); the concrete runs below use whole rates.
\<close>

datatype FeeRateType = Main | Base | BasePerWeight

record FeeRate =
  feeRate :: rat
  feeRateType :: FeeRateType

text \<open>
  A spendable output as \<^verbatim>\<open>getUtxos\<close> returns it: \<open>satoshis\<close> is its value in base
  units, \<open>height\<close> the block height, absent while unconfirmed.
\<close>

record UtxoInfo =
  txid :: string
  vout :: nat
  satoshis :: int
  height :: "nat option"

text \<open>
  A desired output: \<open>mainValue\<close> is the number that the main-denomination string
  \<^verbatim>\<open>value\<close> denotes, \<open>None\<close> when it denotes none (the conversion then yields NaN).
\<close>

record BitcoinishTxOutput =
  address :: string
  mainValue :: "rat option"

record BitcoinishTxOutputSatoshis =
  outAddress :: string
  outSatoshis :: int

record BitcoinishWeightedChangeOutput =
  changeOutputAddress :: string
  weight :: int

text \<open>
  The fields of a \<^verbatim>\<open>BitcoinishPayments\<close> instance, together with what the class takes
  from elsewhere and the sources at hand do not contain: the abstract method
  \<open>isValidAddress\<close>, the inherited converter \<open>toBaseDenominationNumber\<close> and the
  helpers \<open>isConfirmedUtxo\<close> and \<open>sortUtxos\<close> of \<^verbatim>\<open>./utils\<close>. They are parameters:
  every theorem below holds for each choice of them unless it says otherwise.
\<close>

record BitcoinishPayments =
  minTxFee :: "FeeRate option"
  dustThreshold :: int
  networkMinRelayFee :: int
  targetUtxoPoolSize :: int
  minChangeSat :: int
  isValidAddress :: "string \<Rightarrow> bool"
  toBaseDenominationNumber :: "rat \<Rightarrow> int"
  isConfirmedUtxo :: "UtxoInfo \<Rightarrow> bool"
  sortUtxos :: "UtxoInfo list \<Rightarrow> UtxoInfo list"

text \<open>
  Every \<^verbatim>\<open>throw\<close> of \<^verbatim>\<open>buildPaymentTx\<close> is a value; the three numbers of
  \<open>DustOutput\<close> are the index of the output, what is left of it and the fee share,
  those of \<open>InsufficientUtxos\<close> the input total, the external total and the fee, as
  the messages of the source report them. \<open>NotANumber\<close> stands for the one path on
  which the source's arithmetic leaves the numbers: a full-balance send with no
  external output divides the fee by zero, and the fee, the external total and the
  change become NaN. No plan of integers comes out of it: the converter back to
  main-denomination strings (\<^verbatim>\<open>toMainDenominationString\<close>, not in the sources) has no
  decimal amount to return for NaN, and the model takes it to throw.
\<close>

datatype error =
    InvalidAddress nat
  | InvalidValue nat
  | NotPositiveValue nat
  | InvalidChangeAddress
  | DustOutput nat int int
  | InsufficientUtxos int int int
  | NegativeTotalChange
  | NegativeLooseChange
  | NotANumber

record Selection =
  selectedUtxos :: "UtxoInfo list"
  selectedTotalSat :: int
  feeSat :: int

text \<open>
  The plan \<^verbatim>\<open>buildPaymentTx\<close> returns. The source converts every amount to a
  main-denomination string on return; the model keeps the base-unit numbers.
  \<open>rawHex\<close> and \<open>rawHash\<close> are empty strings in the source and left out.
\<close>

record BitcoinishPaymentTx =
  inputs :: "UtxoInfo list"
  outputs :: "BitcoinishTxOutputSatoshis list"
  fee :: int
  change :: int
  changeAddress :: "string option"
  changeOutputs :: "BitcoinishTxOutputSatoshis list"
  externalOutputs :: "BitcoinishTxOutputSatoshis list"
  externalOutputTotal :: int

section \<open>Bitcoinish payments: fee estimation\<close>

definition estimateTxSize :: "int \<Rightarrow> int \<Rightarrow> string list \<Rightarrow> int" where
  "estimateTxSize inputCount changeOutputCount externalOutputAddresses =
     10 + 148 * inputCount + 34 * (changeOutputCount + int (length externalOutputAddresses))"

definition feeRateToSatoshis ::
  "BitcoinishPayments \<Rightarrow> FeeRate \<Rightarrow> int \<Rightarrow> int \<Rightarrow> string list \<Rightarrow> rat" where
  "feeRateToSatoshis P r inputCount changeOutputCount externalOutputAddresses =
     (if feeRateType r = BasePerWeight then
        feeRate r * of_int (estimateTxSize inputCount changeOutputCount externalOutputAddresses)
      else if feeRateType r = Main then of_int (toBaseDenominationNumber P (feeRate r))
      else feeRate r)"

definition estimateTxFee ::
  "BitcoinishPayments \<Rightarrow> FeeRate \<Rightarrow> int \<Rightarrow> int \<Rightarrow> string list \<Rightarrow> int" where
  "estimateTxFee P targetRate inputCount changeOutputCount externalOutputAddresses =
     (let feeSat0 = feeRateToSatoshis P targetRate inputCount changeOutputCount
                      externalOutputAddresses;
          feeSat1 = (case minTxFee P of
                       None \<Rightarrow> feeSat0
                     | Some m \<Rightarrow>
                         (let minTxFeeSat = feeRateToSatoshis P m inputCount changeOutputCount
                                              externalOutputAddresses
                          in if feeSat0 < minTxFeeSat then minTxFeeSat else feeSat0));
          feeSat2 = (if feeSat1 < of_int (networkMinRelayFee P)
                     then of_int (networkMinRelayFee P) else feeSat1)
      in \<lceil>feeSat2\<rceil>)"

definition determineTargetChangeOutputCount :: "BitcoinishPayments \<Rightarrow> int \<Rightarrow> int \<Rightarrow> int" where
  "determineTargetChangeOutputCount P unusedUtxoCount inputUtxoCount =
     (let remainingUtxoCount = unusedUtxoCount - inputUtxoCount
      in if remainingUtxoCount < targetUtxoPoolSize P
         then targetUtxoPoolSize P - remainingUtxoCount
         else 1)"

section \<open>Bitcoinish payments: input selection\<close>

text \<open>
  The loop of \<^verbatim>\<open>selectInputUtxos\<close> that adds the sorted outputs one by one: the
  accumulator is the selection so far, and the loop stops as soon as the selected
  total covers the outputs and the fee estimated for the selection.
\<close>

fun selectIncrementally ::
  "BitcoinishPayments \<Rightarrow> int \<Rightarrow> int \<Rightarrow> string list \<Rightarrow> FeeRate \<Rightarrow> Selection \<Rightarrow>
   UtxoInfo list \<Rightarrow> Selection" where
  "selectIncrementally P unusedCount outputTotal outputAddresses rate acc [] = acc"
| "selectIncrementally P unusedCount outputTotal outputAddresses rate acc (utxo # rest) =
     (let selected = selectedUtxos acc @ [utxo];
          total = selectedTotalSat acc + satoshis utxo;
          targetChangeOutputCount =
            determineTargetChangeOutputCount P unusedCount (int (length selected));
          f = estimateTxFee P rate (int (length selected)) targetChangeOutputCount
                outputAddresses;
          acc' = \<lparr>selectedUtxos = selected, selectedTotalSat = total, feeSat = f\<rparr>
      in if total \<ge> outputTotal + f then acc'
         else selectIncrementally P unusedCount outputTotal outputAddresses rate acc' rest)"

definition selectInputUtxos ::
  "BitcoinishPayments \<Rightarrow> UtxoInfo list \<Rightarrow> int \<Rightarrow> string list \<Rightarrow> FeeRate \<Rightarrow> bool \<Rightarrow> bool \<Rightarrow>
   Selection" where
  "selectInputUtxos P unusedUtxos outputTotal outputAddresses rate useAllUtxos
       useUnconfirmedUtxos =
     (let utxos = filter (\<lambda>utxo. \<not> (\<not> useUnconfirmedUtxos \<and> \<not> isConfirmedUtxo P utxo))
                    unusedUtxos;
          utxosTotalSat = sum_list (map satoshis utxos)
      in if useAllUtxos then
           \<lparr>selectedUtxos = utxos, selectedTotalSat = utxosTotalSat,
            feeSat = estimateTxFee P rate (int (length utxos)) 0 outputAddresses\<rparr>
         else
           (let idealSolutionFeeSat = estimateTxFee P rate 1 0 outputAddresses;
                idealSolutionMinSat = outputTotal + idealSolutionFeeSat;
                idealSolutionMaxSat = idealSolutionMinSat + dustThreshold P
            in case find (\<lambda>utxo. satoshis utxo \<ge> idealSolutionMinSat
                                  \<and> satoshis utxo \<le> idealSolutionMaxSat) utxos of
                 Some utxo \<Rightarrow>
                   \<lparr>selectedUtxos = [utxo], selectedTotalSat = satoshis utxo,
                    feeSat = idealSolutionFeeSat\<rparr>
               | None \<Rightarrow>
                   selectIncrementally P (int (length unusedUtxos)) outputTotal
                     outputAddresses rate
                     \<lparr>selectedUtxos = [], selectedTotalSat = 0, feeSat = 0\<rparr>
                     (sortUtxos P utxos)))"

section \<open>Bitcoinish payments: building the payment\<close>

text \<open>
  The first loop of \<^verbatim>\<open>buildPaymentTx\<close>: each desired output is validated and
  converted to base units; \<open>i\<close> is the index of the head of the list.
\<close>

fun convertDesiredOutputs ::
  "BitcoinishPayments \<Rightarrow> nat \<Rightarrow> BitcoinishTxOutput list \<Rightarrow>
   error + BitcoinishTxOutputSatoshis list" where
  "convertDesiredOutputs P i [] = Inr []"
| "convertDesiredOutputs P i (d # ds) =
     (if \<not> isValidAddress P (address d) then Inl (InvalidAddress i)
      else case mainValue d of
        None \<Rightarrow> Inl (InvalidValue i)
      | Some v \<Rightarrow>
          (let s = toBaseDenominationNumber P v
           in if s \<le> 0 then Inl (NotPositiveValue i)
              else case convertDesiredOutputs P (Suc i) ds of
                Inl e \<Rightarrow> Inl e
              | Inr rest \<Rightarrow> Inr (\<lparr>outAddress = address d, outSatoshis = s\<rparr> # rest)))"

text \<open>
  The loop of the full-balance case: the fee share is subtracted from each external
  output in turn, and the first output left at or below the dust threshold throws.
\<close>

fun subtractFeeShare ::
  "BitcoinishPayments \<Rightarrow> int \<Rightarrow> nat \<Rightarrow> BitcoinishTxOutputSatoshis list \<Rightarrow>
   error + BitcoinishTxOutputSatoshis list" where
  "subtractFeeShare P feeShare i [] = Inr []"
| "subtractFeeShare P feeShare i (e # es) =
     (let s = outSatoshis e - feeShare
      in if s \<le> dustThreshold P then Inl (DustOutput i s feeShare)
         else case subtractFeeShare P feeShare (Suc i) es of
           Inl err \<Rightarrow> Inl err
         | Inr rest \<Rightarrow> Inr (e\<lparr>outSatoshis := s\<rparr> # rest))"

text \<open>
  ``Account for insufficient inputs and sweeping cases'': the result is the external
  outputs, their total and the fee as the rest of the function goes on with them.
\<close>

definition accountForSweep ::
  "BitcoinishPayments \<Rightarrow> BitcoinishTxOutputSatoshis list \<Rightarrow> int \<Rightarrow> int \<Rightarrow> int \<Rightarrow>
   error + (BitcoinishTxOutputSatoshis list \<times> int \<times> int)" where
  "accountForSweep P extOutputs extTotal inputTotal feeSat0 =
     (if extTotal + feeSat0 > inputTotal then
        if extTotal = inputTotal then
          if length extOutputs = 0 then Inl NotANumber
          else
            (let feeShare = \<lceil>(of_int feeSat0 :: rat) / of_int (int (length extOutputs))\<rceil>;
                 feeSat1 = feeShare * int (length extOutputs)
             in case subtractFeeShare P feeShare 0 extOutputs of
                  Inl err \<Rightarrow> Inl err
                | Inr extOutputs' \<Rightarrow> Inr (extOutputs', extTotal - feeSat1, feeSat1))
        else Inl (InsufficientUtxos inputTotal extTotal feeSat0)
      else Inr (extOutputs, extTotal, feeSat0))"

definition createWeightedChangeOutputs ::
  "int \<Rightarrow> string \<Rightarrow> BitcoinishWeightedChangeOutput list" where
  "createWeightedChangeOutputs changeOutputCount changeAddr =
     map (\<lambda>i. \<lparr>changeOutputAddress = changeAddr, weight = 2 ^ i\<rparr>) [0..<nat changeOutputCount]"

text \<open>
  The loop that distributes the change over the weighted outputs and omits the shares
  at or below the dust threshold or below \<open>minChangeSat\<close>.
\<close>

fun allocateChange ::
  "BitcoinishPayments \<Rightarrow> int \<Rightarrow> int \<Rightarrow> BitcoinishWeightedChangeOutput list \<Rightarrow>
   BitcoinishTxOutputSatoshis list" where
  "allocateChange P totalChangeSat totalChangeWeight [] = []"
| "allocateChange P totalChangeSat totalChangeWeight (w # ws) =
     (let changeSat =
            \<lfloor>(of_int totalChangeSat :: rat) * (of_int (weight w) / of_int totalChangeWeight)\<rfloor>
      in if changeSat \<le> dustThreshold P \<or> changeSat < minChangeSat P
         then allocateChange P totalChangeSat totalChangeWeight ws
         else \<lparr>outAddress = changeOutputAddress w, outSatoshis = changeSat\<rparr>
                # allocateChange P totalChangeSat totalChangeWeight ws)"

text \<open>
  The end of the change handling, from the test of \<open>looseChange\<close> on: the result is
  the change outputs, the fee and the total change.
\<close>

definition reconcileLooseChange ::
  "BitcoinishPayments \<Rightarrow> string \<Rightarrow> BitcoinishTxOutputSatoshis list \<Rightarrow> int \<Rightarrow> int \<Rightarrow> int \<Rightarrow>
   error + (BitcoinishTxOutputSatoshis list \<times> int \<times> int)" where
  "reconcileLooseChange P changeAddr chOutputs looseChange feeSat0 totalChangeSat =
     (if looseChange < 0 then Inl NegativeLooseChange
      else if length chOutputs > 0
              \<and> (of_int looseChange :: rat) / of_int (int (length chOutputs)) > 1 then
        (let extraSatPerChangeOutput =
               \<lfloor>(of_int looseChange :: rat) / of_int (int (length chOutputs))\<rfloor>;
             chOutputs' =
               map (\<lambda>c. c\<lparr>outSatoshis := outSatoshis c + extraSatPerChangeOutput\<rparr>) chOutputs;
             looseChange' = looseChange - extraSatPerChangeOutput * int (length chOutputs)
         in Inr (chOutputs', feeSat0 + looseChange', totalChangeSat - looseChange'))
      else if length chOutputs = 0 \<and> looseChange > dustThreshold P then
        Inr ([\<lparr>outAddress = changeAddr, outSatoshis = looseChange\<rparr>], feeSat0, totalChangeSat)
      else Inr (chOutputs, feeSat0 + looseChange, totalChangeSat - looseChange))"

definition handleChange ::
  "BitcoinishPayments \<Rightarrow> FeeRate \<Rightarrow> string \<Rightarrow> int \<Rightarrow> int \<Rightarrow> string list \<Rightarrow> int \<Rightarrow> int \<Rightarrow> int \<Rightarrow>
   error + (BitcoinishTxOutputSatoshis list \<times> int \<times> int)" where
  "handleChange P rate changeAddr unusedCount inputCount externalOutputAddresses inputTotal
       extTotal feeSat0 =
     (let totalChangeSat = inputTotal - extTotal - feeSat0
      in if totalChangeSat < 0 then Inl NegativeTotalChange
         else
           (let targetChangeOutputCount =
                  determineTargetChangeOutputCount P unusedCount inputCount;
                changeOutputWeights =
                  createWeightedChangeOutputs targetChangeOutputCount changeAddr;
                totalChangeWeight = sum_list (map weight changeOutputWeights);
                chOutputs = allocateChange P totalChangeSat totalChangeWeight changeOutputWeights;
                totalChangeAllocated = sum_list (map outSatoshis chOutputs);
                looseChange = totalChangeSat - totalChangeAllocated;
                recalculatedFee =
                  estimateTxFee P rate inputCount
                    (if length chOutputs = 0 then 1 else int (length chOutputs))
                    externalOutputAddresses;
                overpayingAmount = (if feeSat0 > recalculatedFee
                                    then feeSat0 - recalculatedFee else 0);
                feeSat1 = (if feeSat0 > recalculatedFee then recalculatedFee else feeSat0)
            in reconcileLooseChange P changeAddr chOutputs (looseChange + overpayingAmount)
                 feeSat1 (totalChangeSat + overpayingAmount)))"

definition buildPaymentTx ::
  "BitcoinishPayments \<Rightarrow> UtxoInfo list \<Rightarrow> BitcoinishTxOutput list \<Rightarrow> string \<Rightarrow> FeeRate \<Rightarrow>
   bool option \<Rightarrow> bool option \<Rightarrow> error + BitcoinishPaymentTx" where
  "buildPaymentTx P unusedUtxos desiredOutputs changeAddr desiredFeeRate useAllUtxosOpt
       useUnconfirmedUtxosOpt =
     (let useAllUtxos = (case useAllUtxosOpt of None \<Rightarrow> False | Some b \<Rightarrow> b);
          useUnconfirmedUtxos = (case useUnconfirmedUtxosOpt of None \<Rightarrow> False | Some b \<Rightarrow> b)
      in case convertDesiredOutputs P 0 desiredOutputs of
           Inl e \<Rightarrow> Inl e
         | Inr extOutputs0 \<Rightarrow>
             if \<not> isValidAddress P changeAddr then Inl InvalidChangeAddress
             else
               (let externalOutputTotal0 = sum_list (map outSatoshis extOutputs0);
                    externalOutputAddresses = map outAddress extOutputs0;
                    sel = selectInputUtxos P unusedUtxos externalOutputTotal0
                            externalOutputAddresses desiredFeeRate useAllUtxos
                            useUnconfirmedUtxos;
                    inputUtxos = selectedUtxos sel;
                    inputTotal = selectedTotalSat sel
                in case accountForSweep P extOutputs0 externalOutputTotal0 inputTotal
                          (feeSat sel) of
                     Inl e \<Rightarrow> Inl e
                   | Inr (extOutputs, extTotal, feeSat1) \<Rightarrow>
                       (case handleChange P desiredFeeRate changeAddr
                               (int (length unusedUtxos)) (int (length inputUtxos))
                               externalOutputAddresses inputTotal extTotal feeSat1 of
                          Inl e \<Rightarrow> Inl e
                        | Inr (chOutputs, feeSat2, totalChangeSat) \<Rightarrow>
                            Inr \<lparr>inputs = inputUtxos,
                                 outputs = extOutputs @ chOutputs,
                                 fee = feeSat2,
                                 change = totalChangeSat,
                                 changeAddress =
                                   (if length chOutputs = 1
                                    then Some (outAddress (hd chOutputs)) else None),
                                 changeOutputs = chOutputs,
                                 externalOutputs = extOutputs,
                                 externalOutputTotal = extTotal\<rparr>)))"

section \<open>Helpers that the sources do not contain\<close>

text \<open>
  Modelled from the spec: \<open>toBaseDenominationNumber\<close>, the converter of a
  main-denomination amount to base units, is not in the sources; the spec (4.1) has
  it multiply by \<open>10 ^ decimals\<close> and floor.
\<close>

definition toBaseDenominationNumberSpec :: "nat \<Rightarrow> rat \<Rightarrow> int" where
  "toBaseDenominationNumberSpec decimals x = \<lfloor>x * 10 ^ decimals\<rfloor>"

text \<open>
  Modelled from the spec: \<open>isConfirmedUtxo\<close> of \<^verbatim>\<open>./utils\<close> is not in the sources; the
  spec (3) calls an output confirmed iff its height is a positive integer.
\<close>

definition isConfirmedUtxoSpec :: "UtxoInfo \<Rightarrow> bool" where
  "isConfirmedUtxoSpec utxo = (case height utxo of None \<Rightarrow> False | Some h \<Rightarrow> 0 < h)"

text \<open>
  The order of JavaScript strings (by code unit), used to break ties and to compare
  activity sequences.
\<close>

fun stringLess :: "string \<Rightarrow> string \<Rightarrow> bool" where
  "stringLess [] [] = False"
| "stringLess [] (y # ys) = True"
| "stringLess (x # xs) [] = False"
| "stringLess (x # xs) (y # ys) =
     ((of_char x :: nat) < of_char y \<or> (x = y \<and> stringLess xs ys))"

text \<open>
  Modelled from the spec: \<open>sortUtxos\<close> of \<^verbatim>\<open>./utils\<close> is not in the sources; the spec
  (4.4) orders confirmed before unconfirmed, then by descending value, then by
  \<open>(txid, vout)\<close> ascending.
\<close>

definition utxoBefore :: "UtxoInfo \<Rightarrow> UtxoInfo \<Rightarrow> bool" where
  "utxoBefore a b =
     (if isConfirmedUtxoSpec a \<noteq> isConfirmedUtxoSpec b then isConfirmedUtxoSpec a
      else if satoshis a \<noteq> satoshis b then satoshis a > satoshis b
      else if txid a \<noteq> txid b then stringLess (txid a) (txid b)
      else vout a \<le> vout b)"

fun insertUtxo :: "UtxoInfo \<Rightarrow> UtxoInfo list \<Rightarrow> UtxoInfo list" where
  "insertUtxo u [] = [u]"
| "insertUtxo u (x # xs) = (if utxoBefore u x then u # x # xs else x # insertUtxo u xs)"

definition sortUtxosSpec :: "UtxoInfo list \<Rightarrow> UtxoInfo list" where
  "sortUtxosSpec us = foldr insertUtxo us []"

text \<open>
  A Bitcoin-like instance for the concrete runs below: eight decimals, dust threshold
  546, minimum relay fee 1000, one change output, no \<open>minChange\<close>, no \<open>minTxFee\<close>;
  every non-empty string is taken for a valid address.
\<close>

definition examplePayments :: BitcoinishPayments where
  "examplePayments =
     \<lparr>minTxFee = None, dustThreshold = 546, networkMinRelayFee = 1000,
      targetUtxoPoolSize = 1, minChangeSat = 0,
      isValidAddress = (\<lambda>a. a \<noteq> []),
      toBaseDenominationNumber = toBaseDenominationNumberSpec 8,
      isConfirmedUtxo = isConfirmedUtxoSpec,
      sortUtxos = sortUtxosSpec\<rparr>"

definition exampleUtxo :: "string \<Rightarrow> int \<Rightarrow> UtxoInfo" where
  "exampleUtxo t s = \<lparr>txid = t, vout = 0, satoshis = s, height = Some 100\<rparr>"

text \<open>
  The pool-fill run of the spec (8, scenario 3): four change outputs wanted, one
  unspent output of 1000000, one payment of 100000 at a flat fee of 2000.
\<close>

definition poolFillPayments :: BitcoinishPayments where
  "poolFillPayments = examplePayments\<lparr>targetUtxoPoolSize := 4\<rparr>"

definition poolFillPlan :: BitcoinishPaymentTx where
  "poolFillPlan =
     \<lparr>inputs = [exampleUtxo ''a'' 1000000],
      outputs =
        [\<lparr>outAddress = ''A'', outSatoshis = 100000\<rparr>,
         \<lparr>outAddress = ''C'', outSatoshis = 59866\<rparr>,
         \<lparr>outAddress = ''C'', outSatoshis = 119733\<rparr>,
         \<lparr>outAddress = ''C'', outSatoshis = 239466\<rparr>,
         \<lparr>outAddress = ''C'', outSatoshis = 478933\<rparr>],
      fee = 2002, change = 897998, changeAddress = None,
      changeOutputs =
        [\<lparr>outAddress = ''C'', outSatoshis = 59866\<rparr>,
         \<lparr>outAddress = ''C'', outSatoshis = 119733\<rparr>,
         \<lparr>outAddress = ''C'', outSatoshis = 239466\<rparr>,
         \<lparr>outAddress = ''C'', outSatoshis = 478933\<rparr>],
      externalOutputs = [\<lparr>outAddress = ''A'', outSatoshis = 100000\<rparr>],
      externalOutputTotal = 100000\<rparr>"


text \<open>
  A payment of 500 base units, below the dust threshold of 546, from one unspent output
  of 10000 at a flat fee of 1000.
\<close>

definition dustyPlan :: BitcoinishPaymentTx where
  "dustyPlan =
     \<lparr>inputs = [exampleUtxo ''a'' 10000],
      outputs = [\<lparr>outAddress = ''A'', outSatoshis = 500\<rparr>,
                 \<lparr>outAddress = ''C'', outSatoshis = 8500\<rparr>],
      fee = 1000, change = 8500, changeAddress = Some ''C'',
      changeOutputs = [\<lparr>outAddress = ''C'', outSatoshis = 8500\<rparr>],
      externalOutputs = [\<lparr>outAddress = ''A'', outSatoshis = 500\<rparr>],
      externalOutputTotal = 500\<rparr>"

text \<open>
  A coin with a \<open>minChange\<close> of 10000 base units: one unspent output of 10000 pays 4000
  at a flat fee of 1000, which leaves a change of 5000.
\<close>

definition minChangePayments :: BitcoinishPayments where
  "minChangePayments = examplePayments\<lparr>minChangeSat := 10000\<rparr>"

definition minChangePlan :: BitcoinishPaymentTx where
  "minChangePlan =
     \<lparr>inputs = [exampleUtxo ''a'' 10000],
      outputs = [\<lparr>outAddress = ''A'', outSatoshis = 4000\<rparr>,
                 \<lparr>outAddress = ''C'', outSatoshis = 5000\<rparr>],
      fee = 1000, change = 5000, changeAddress = Some ''C'',
      changeOutputs = [\<lparr>outAddress = ''C'', outSatoshis = 5000\<rparr>],
      externalOutputs = [\<lparr>outAddress = ''A'', outSatoshis = 4000\<rparr>],
      externalOutputTotal = 4000\<rparr>"

text \<open>
  A coin that wants four change outputs of at least 100000 base units: one unspent
  output of 1000000 pays 100000 at a flat fee of 2000. The smallest of the four shares
  of the change is below \<open>minChangeSat\<close> and is handed to the other three.
\<close>

definition minChangeSplitPayments :: BitcoinishPayments where
  "minChangeSplitPayments =
     examplePayments\<lparr>targetUtxoPoolSize := 4, minChangeSat := 100000\<rparr>"

definition minChangeSplitPlan :: BitcoinishPaymentTx where
  "minChangeSplitPlan =
     \<lparr>inputs = [exampleUtxo ''a'' 1000000],
      outputs =
        [\<lparr>outAddress = ''A'', outSatoshis = 100000\<rparr>,
         \<lparr>outAddress = ''C'', outSatoshis = 139689\<rparr>,
         \<lparr>outAddress = ''C'', outSatoshis = 259422\<rparr>,
         \<lparr>outAddress = ''C'', outSatoshis = 498889\<rparr>],
      fee = 2000, change = 898000, changeAddress = None,
      changeOutputs =
        [\<lparr>outAddress = ''C'', outSatoshis = 139689\<rparr>,
         \<lparr>outAddress = ''C'', outSatoshis = 259422\<rparr>,
         \<lparr>outAddress = ''C'', outSatoshis = 498889\<rparr>],
      externalOutputs = [\<lparr>outAddress = ''A'', outSatoshis = 100000\<rparr>],
      externalOutputTotal = 100000\<rparr>"

text \<open>
  The sweep of the spec (8, scenario 2): two unspent outputs of 30000 and 20000, the
  whole 50000 sent to one address at 10 base units per vbyte.
\<close>

definition sweepUtxos :: "UtxoInfo list" where
  "sweepUtxos = [exampleUtxo ''a'' 30000, exampleUtxo ''b'' 20000]"

definition sweepRate :: FeeRate where
  "sweepRate = \<lparr>feeRate = 10, feeRateType = BasePerWeight\<rparr>"

definition sweepSelection :: Selection where
  "sweepSelection =
     selectInputUtxos examplePayments sweepUtxos 50000 [''A'']
       \<lparr>feeRate = 10, feeRateType = BasePerWeight\<rparr> True False"

text \<open>
  Three more selections at the same rate: nothing to spend and nothing to pay with all
  outputs used, one unspent output of 2000 sent in full, and one unspent output of 5000
  for a payment of 10000.
\<close>

definition emptySelection :: Selection where
  "emptySelection = selectInputUtxos examplePayments [] 0 [] sweepRate True False"

definition dustSelection :: Selection where
  "dustSelection =
     selectInputUtxos examplePayments [exampleUtxo ''a'' 2000] 2000 [''A''] sweepRate True False"

definition shortSelection :: Selection where
  "shortSelection =
     selectInputUtxos examplePayments [exampleUtxo ''a'' 5000] 10000 [''A''] sweepRate
       False False"

definition sweepPlan :: BitcoinishPaymentTx where
  "sweepPlan =
     \<lparr>inputs = sweepUtxos,
      outputs = [\<lparr>outAddress = ''A'', outSatoshis = 46600\<rparr>],
      fee = 3400, change = 0, changeAddress = None,
      changeOutputs = [],
      externalOutputs = [\<lparr>outAddress = ''A'', outSatoshis = 46600\<rparr>],
      externalOutputTotal = 46600\<rparr>"

text \<open>
  A coin without a dust threshold that wants two change outputs: one unspent output of
  10002 pays 9000 at a flat fee of 1000, which leaves a change of 2.
\<close>

definition looseBoundaryPayments :: BitcoinishPayments where
  "looseBoundaryPayments = examplePayments\<lparr>targetUtxoPoolSize := 2, dustThreshold := 0\<rparr>"

definition looseBoundaryPlan :: BitcoinishPaymentTx where
  "looseBoundaryPlan =
     \<lparr>inputs = [exampleUtxo ''a'' 10002],
      outputs = [\<lparr>outAddress = ''A'', outSatoshis = 9000\<rparr>,
                 \<lparr>outAddress = ''C'', outSatoshis = 1\<rparr>],
      fee = 1001, change = 1, changeAddress = Some ''C'',
      changeOutputs = [\<lparr>outAddress = ''C'', outSatoshis = 1\<rparr>],
      externalOutputs = [\<lparr>outAddress = ''A'', outSatoshis = 9000\<rparr>],
      externalOutputTotal = 9000\<rparr>"

text \<open>
  A configured \<open>minTxFee\<close> of 10 base units per vbyte: all of one unspent output of
  100000 is used to pay 50000 at the same rate.
\<close>

definition minFeePayments :: BitcoinishPayments where
  "minFeePayments =
     examplePayments\<lparr>minTxFee := Some \<lparr>feeRate = 10, feeRateType = BasePerWeight\<rparr>\<rparr>"

definition minFeePlan :: BitcoinishPaymentTx where
  "minFeePlan =
     \<lparr>inputs = [exampleUtxo ''a'' 100000],
      outputs = [\<lparr>outAddress = ''A'', outSatoshis = 50000\<rparr>,
                 \<lparr>outAddress = ''C'', outSatoshis = 48080\<rparr>],
      fee = 1920, change = 48080, changeAddress = Some ''C'',
      changeOutputs = [\<lparr>outAddress = ''C'', outSatoshis = 48080\<rparr>],
      externalOutputs = [\<lparr>outAddress = ''A'', outSatoshis = 50000\<rparr>],
      externalOutputTotal = 50000\<rparr>"

text \<open>The same payment when \<open>useAllUtxos\<close> is not set.\<close>

definition minFeeTargetedPlan :: BitcoinishPaymentTx where
  "minFeeTargetedPlan =
     \<lparr>inputs = [exampleUtxo ''a'' 100000],
      outputs = [\<lparr>outAddress = ''A'', outSatoshis = 50000\<rparr>,
                 \<lparr>outAddress = ''C'', outSatoshis = 47740\<rparr>],
      fee = 2260, change = 47740, changeAddress = Some ''C'',
      changeOutputs = [\<lparr>outAddress = ''C'', outSatoshis = 47740\<rparr>],
      externalOutputs = [\<lparr>outAddress = ''A'', outSatoshis = 50000\<rparr>],
      externalOutputTotal = 50000\<rparr>"

section \<open>Bitcoinish payments: broadcast\<close>

text \<open>
  A signed transaction, as far as \<^verbatim>\<open>broadcastTransaction\<close> reads it: \<open>signedId\<close> is
  \<^verbatim>\<open>tx.id\<close> and \<open>signedHex\<close> is \<^verbatim>\<open>tx.data.hex\<close>.
\<close>

record BitcoinishSignedTransaction =
  signedId :: string
  signedHex :: string

record BitcoinishBroadcastResult =
  resultId :: string

text \<open>The warning that \<^verbatim>\<open>broadcastTransaction\<close> logs: the broadcast txid, the original txid.\<close>

datatype broadcastWarning = TxidMismatch string string

definition startsWith :: "string \<Rightarrow> string \<Rightarrow> bool" where
  "startsWith s p = (take (length p) s = p)"

text \<open>
  \<open>sendTx\<close> is the node facade's call as \<^verbatim>\<open>_retryDced\<close> settles it: \<open>Inr\<close> the txid
  it returns, \<open>Inl\<close> the error it throws. \<open>errorMessage\<close> reads \<^verbatim>\<open>e.message\<close>, \<open>None\<close>
  when the thrown value has none. The result is the warnings logged and the outcome
  of the call.
\<close>

definition broadcastTransaction ::
  "('e \<Rightarrow> string option) \<Rightarrow> (string \<Rightarrow> 'e + string) \<Rightarrow> BitcoinishSignedTransaction \<Rightarrow>
   broadcastWarning list \<times> ('e + BitcoinishBroadcastResult)" where
  "broadcastTransaction errorMessage sendTx tx =
     (case sendTx (signedHex tx) of
        Inr txId \<Rightarrow>
          ((if signedId tx \<noteq> txId then [TxidMismatch txId (signedId tx)] else []),
           Inr \<lparr>resultId = signedId tx\<rparr>)
      | Inl e \<Rightarrow>
          (let message = (case errorMessage e of None \<Rightarrow> '''' | Some m \<Rightarrow> m)
           in if startsWith message ''-27'' then ([], Inr \<lparr>resultId = signedId tx\<rparr>)
              else ([], Inl e)))"

text \<open>
  Three node facades for the concrete runs: one that knows the transaction \<open>beef\<close> and
  reports every other one as already in the mempool, one that rejects, and one that
  returns a txid of its own. A thrown value is its message, if it has one.
\<close>

definition mempoolFacade :: "string \<Rightarrow> string option + string" where
  "mempoolFacade h =
     (if h = ''beef'' then Inr ''t1''
      else Inl (Some ''-27: transaction already in block chain''))"

definition rejectingFacade :: "string \<Rightarrow> string option + string" where
  "rejectingFacade h = Inl (Some ''-25: missing inputs'')"

definition renamingFacade :: "string \<Rightarrow> string option + string" where
  "renamingFacade h = Inr ''other''"

section \<open>Ripple balance monitor: balance activities\<close>

text \<open>
  \<^verbatim>\<open>String(n)\<close> for a ledger version, an index or a tag: the decimal digits of a
  natural number.
\<close>

function numberToString :: "nat \<Rightarrow> string" where
  "numberToString n =
     (if n < 10 then [''0123456789'' ! n]
      else numberToString (n div 10) @ [''0123456789'' ! (n mod 10)])"
  by pat_completeness auto

termination
  by (relation "measure (\<lambda>n. n)") auto

declare numberToString.simps [simp del]

text \<open>
  Modelled from the spec: \<open>padLeft\<close> of \<^verbatim>\<open>./utils\<close> is not in the sources; the spec
  (4.6) has \<open>zero_pad\<close> fill a string on the left with the pad character up to the
  given length.
\<close>

definition padLeft :: "string \<Rightarrow> nat \<Rightarrow> char \<Rightarrow> string" where
  "padLeft x n v = replicate (n - length x) v @ x"

record BalanceChange =
  currency :: string
  balanceValue :: string

text \<open>
  A payment transaction as the Ripple API returns it, with the fields that
  \<^verbatim>\<open>paymentToBalanceActivities\<close> reads: \<open>specification.source\<close>,
  \<open>specification.destination\<close> and \<open>outcome\<close>.
\<close>

record RipplePayment =
  paymentId :: string
  sourceAddress :: string
  sourceTag :: "nat option"
  destinationAddress :: string
  destinationTag :: "nat option"
  ledgerVersion :: nat
  indexInLedger :: nat
  balanceChanges :: "string \<rightharpoonup> BalanceChange list"

record RippleLedger =
  ledgerHash :: string
  closeTime :: string

datatype BalanceActivityType = In | Out

record BalanceActivity =
  activityType :: BalanceActivityType
  networkType :: string
  networkSymbol :: string
  assetSymbol :: string
  activityAddress :: string
  extraId :: "string option"
  amount :: string
  externalId :: string
  activitySequence :: string
  confirmationId :: string
  confirmationNumber :: nat
  timestamp :: string

text \<open>
  \<open>getLedger\<close> is the API call as \<^verbatim>\<open>retryDced\<close> settles it, \<open>Inl\<close> the error it throws.
  The result is \<open>Inr None\<close> where the source returns \<^verbatim>\<open>null\<close>; the diagnostics it logs
  there are left out.
\<close>

definition paymentToBalanceActivities ::
  "string \<Rightarrow> (nat \<Rightarrow> 'e + RippleLedger) \<Rightarrow> string \<Rightarrow> RipplePayment \<Rightarrow>
   'e + BalanceActivity option" where
  "paymentToBalanceActivities monitorNetworkType getLedger addr tx =
     (case (if sourceAddress tx = addr then Some Out
            else if destinationAddress tx = addr then Some In
            else None) of
        None \<Rightarrow> Inr None
      | Some ty \<Rightarrow>
          (let confirmationNo = ledgerVersion tx;
               primarySequence = padLeft (numberToString (ledgerVersion tx)) 12 (CHR ''0'');
               secondarySequence = padLeft (numberToString (indexInLedger tx)) 8 (CHR ''0'')
           in case getLedger confirmationNo of
                Inl e \<Rightarrow> Inl e
              | Inr ledger \<Rightarrow>
                  (let tag = (if ty = Out then sourceTag tx else destinationTag tx)
                   in case find (\<lambda>c. currency c = ''XRP'')
                             (case balanceChanges tx addr of None \<Rightarrow> [] | Some cs \<Rightarrow> cs) of
                        None \<Rightarrow> Inr None
                      | Some balanceChange \<Rightarrow>
                          (let tertiarySequence = (if ty = Out then ''00'' else ''01'');
                               sequence = primarySequence @ ''.'' @ secondarySequence
                                            @ ''.'' @ tertiarySequence
                           in Inr (Some
                                \<lparr>activityType = ty,
                                 networkType = monitorNetworkType,
                                 networkSymbol = ''TRX'',
                                 assetSymbol = currency balanceChange,
                                 activityAddress = addr,
                                 extraId = (case tag of None \<Rightarrow> None
                                            | Some g \<Rightarrow> Some (numberToString g)),
                                 amount = balanceValue balanceChange,
                                 externalId = paymentId tx,
                                 activitySequence = sequence,
                                 confirmationId = ledgerHash ledger,
                                 confirmationNumber = confirmationNo,
                                 timestamp = closeTime ledger\<rparr>)))))"

text \<open>
  A payment of 10 XRP in ledger 1234, and a ledger lookup that always answers.
\<close>

definition examplePayment :: RipplePayment where
  "examplePayment =
     \<lparr>paymentId = ''F00D'', sourceAddress = ''rSender'', sourceTag = None,
      destinationAddress = ''rReceiver'', destinationTag = Some 7,
      ledgerVersion = 1234, indexInLedger = 5,
      balanceChanges =
        [''rSender'' \<mapsto> [\<lparr>currency = ''XRP'', balanceValue = ''-10.000012''\<rparr>],
         ''rReceiver'' \<mapsto> [\<lparr>currency = ''XRP'', balanceValue = ''10''\<rparr>]]\<rparr>"

definition exampleGetLedger :: "nat \<Rightarrow> string + RippleLedger" where
  "exampleGetLedger v = Inr \<lparr>ledgerHash = ''ABCD'', closeTime = ''2019-11-04T00:00:00.000Z''\<rparr>"

section \<open>Ripple balance monitor: the ledger window\<close>

definition isDigit :: "char \<Rightarrow> bool" where
  "isDigit c = (c \<in> set ''0123456789'')"

definition digitValue :: "char \<Rightarrow> nat" where
  "digitValue c = of_char c - 48"

text \<open>
  \<^verbatim>\<open>Number.parseInt\<close> on a piece of the ledger range: the number that the leading
  decimal digits denote, \<open>None\<close> (NaN) when the piece does not start with a digit.
  Leading white space, a sign and a hexadecimal prefix are not modelled.
\<close>

definition parseInt :: "string \<Rightarrow> int option" where
  "parseInt s =
     (case takeWhile isDigit s of
        [] \<Rightarrow> None
      | d # ds \<Rightarrow> Some (int (foldl (\<lambda>acc c. 10 * acc + digitValue c) 0 (d # ds))))"

text \<open>\<^verbatim>\<open>s.split(c)\<close> for a separator of one character.\<close>

fun splitOn :: "char \<Rightarrow> string \<Rightarrow> string list" where
  "splitOn c [] = [[]]"
| "splitOn c (x # xs) =
     (if x = c then [] # splitOn c xs
      else case splitOn c xs of
             [] \<Rightarrow> [[x]]
           | w # ws \<Rightarrow> (x # w) # ws)"

text \<open>
  \<^verbatim>\<open>Number.parseInt(pieces[i])\<close>: an index beyond the pieces reads \<^verbatim>\<open>undefined\<close>, which
  parses to NaN.
\<close>

definition parseIntAt :: "string list \<Rightarrow> nat \<Rightarrow> int option" where
  "parseIntAt pieces i = (if i < length pieces then parseInt (pieces ! i) else None)"

record RippleServerInfo =
  completeLedgers :: string

text \<open>
  A bound of the requested range: a ledger number, or a balance activity whose
  \<open>confirmationNumber\<close> is taken. The confirmation number of an activity of this
  monitor is a ledger version, so \<^verbatim>\<open>isNumber\<close> holds for every bound that is given.
\<close>

datatype LedgerBound = AtLedger int | AtActivity BalanceActivity

datatype windowWarning =
    DoesNotGoBackTo int "int option"
  | DoesNotGoUpTo int "int option"

record LedgerWindow =
  windowFrom :: "int option"
  windowTo :: "int option"

definition requestedLedger :: "LedgerBound option \<Rightarrow> int option" where
  "requestedLedger b =
     (case b of
        None \<Rightarrow> None
      | Some (AtLedger n) \<Rightarrow> Some n
      | Some (AtActivity a) \<Rightarrow> Some (int (confirmationNumber a)))"

text \<open>
  \<open>getServerInfo\<close> is the API call as \<^verbatim>\<open>retryDced\<close> settles it. A ledger version is an
  \<open>int option\<close>, \<open>None\<close> for NaN, with which every comparison is false. The result is
  the warnings logged and the window \<^verbatim>\<open>{ from, to }\<close>.
\<close>

definition resolveFromToLedgers ::
  "('e + RippleServerInfo) \<Rightarrow> LedgerBound option \<Rightarrow> LedgerBound option \<Rightarrow>
   'e + (windowWarning list \<times> LedgerWindow)" where
  "resolveFromToLedgers getServerInfo fromOption toOption =
     (case getServerInfo of
        Inl e \<Rightarrow> Inl e
      | Inr serverInfo \<Rightarrow>
          (let pieces = splitOn (CHR ''-'') (completeLedgers serverInfo);
               fromLedgerVersion = parseIntAt pieces 0;
               toLedgerVersion = parseIntAt pieces 1;
               requestedFrom = requestedLedger fromOption;
               requestedTo = requestedLedger toOption;
               (warnFrom, fromLedgerVersion') =
                 (case requestedFrom of
                    None \<Rightarrow> ([], fromLedgerVersion)
                  | Some r \<Rightarrow>
                      if (case fromLedgerVersion of None \<Rightarrow> False | Some f \<Rightarrow> r < f)
                      then ([DoesNotGoBackTo r fromLedgerVersion], fromLedgerVersion)
                      else ([], Some r));
               (warnTo, toLedgerVersion') =
                 (case requestedTo of
                    None \<Rightarrow> ([], toLedgerVersion)
                  | Some r \<Rightarrow>
                      if (case toLedgerVersion of None \<Rightarrow> False | Some t \<Rightarrow> r > t)
                      then ([DoesNotGoUpTo r toLedgerVersion], toLedgerVersion)
                      else ([], Some r))
           in Inr (warnFrom @ warnTo,
                   \<lparr>windowFrom = fromLedgerVersion', windowTo = toLedgerVersion'\<rparr>)))"

text \<open>The activities of the example payment, and a server that retains ledgers 1000 to 2000.\<close>

definition exampleOutActivity :: BalanceActivity where
  "exampleOutActivity =
     \<lparr>activityType = Out, networkType = ''mainnet'', networkSymbol = ''TRX'',
      assetSymbol = ''XRP'', activityAddress = ''rSender'', extraId = None,
      amount = ''-10.000012'', externalId = ''F00D'',
      activitySequence = ''000000001234.00000005.00'',
      confirmationId = ''ABCD'', confirmationNumber = 1234,
      timestamp = ''2019-11-04T00:00:00.000Z''\<rparr>"

definition exampleInActivity :: BalanceActivity where
  "exampleInActivity =
     \<lparr>activityType = In, networkType = ''mainnet'', networkSymbol = ''TRX'',
      assetSymbol = ''XRP'', activityAddress = ''rReceiver'', extraId = Some ''7'',
      amount = ''10'', externalId = ''F00D'',
      activitySequence = ''000000001234.00000005.01'',
      confirmationId = ''ABCD'', confirmationNumber = 1234,
      timestamp = ''2019-11-04T00:00:00.000Z''\<rparr>"

definition exampleServerInfo :: "string + RippleServerInfo" where
  "exampleServerInfo = Inr \<lparr>completeLedgers = ''1000-2000''\<rparr>"

section \<open>Bitcoinish payments: lemmas about the stages\<close>


lemma selectIncrementally_total:
  "selectedTotalSat acc = sum_list (map satoshis (selectedUtxos acc)) \<Longrightarrow>
   selectedTotalSat (selectIncrementally P n outputTotal addrs rate acc us)
     = sum_list (map satoshis
         (selectedUtxos (selectIncrementally P n outputTotal addrs rate acc us)))"
  by (induction us arbitrary: acc) (simp_all add: Let_def)

lemma selectInputUtxos_total:
  "selectedTotalSat (selectInputUtxos P us t addrs rate ua uu)
     = sum_list (map satoshis (selectedUtxos (selectInputUtxos P us t addrs rate ua uu)))"
  unfolding selectInputUtxos_def Let_def
  by (auto split: option.splits intro!: selectIncrementally_total)

lemma estimateTxFee_ge_relay: "networkMinRelayFee P \<le> estimateTxFee P r n c a"
  unfolding estimateTxFee_def Let_def
  by (simp add: le_ceiling_iff)

lemma estimateTxFee_ge_minTxFee:
  "minTxFee P = Some m \<Longrightarrow> feeRateToSatoshis P m n c a \<le> of_int (estimateTxFee P r n c a)"
  unfolding estimateTxFee_def Let_def
  by (auto intro: order_trans [OF _ le_of_int_ceiling])

lemma selectIncrementally_cases:
  "selectIncrementally P n t addrs rate acc us = acc
   \<or> (selectedUtxos (selectIncrementally P n t addrs rate acc us) \<noteq> []
      \<and> feeSat (selectIncrementally P n t addrs rate acc us)
          = estimateTxFee P rate
              (int (length (selectedUtxos (selectIncrementally P n t addrs rate acc us))))
              (determineTargetChangeOutputCount P n
                 (int (length (selectedUtxos (selectIncrementally P n t addrs rate acc us)))))
              addrs)"
proof (induction us arbitrary: acc)
  case Nil
  show ?case by simp
next
  case (Cons u us)
  define acc' where "acc' = \<lparr>selectedUtxos = selectedUtxos acc @ [u],
      selectedTotalSat = selectedTotalSat acc + satoshis u,
      feeSat = estimateTxFee P rate (int (length (selectedUtxos acc @ [u])))
         (determineTargetChangeOutputCount P n (int (length (selectedUtxos acc @ [u])))) addrs\<rparr>"
  have step: "selectIncrementally P n t addrs rate acc (u # us)
      = (if selectedTotalSat acc' \<ge> t + feeSat acc' then acc'
         else selectIncrementally P n t addrs rate acc' us)"
    by (simp add: acc'_def Let_def)
  have here: "selectedUtxos acc' \<noteq> []"
     "feeSat acc' = estimateTxFee P rate (int (length (selectedUtxos acc')))
         (determineTargetChangeOutputCount P n (int (length (selectedUtxos acc')))) addrs"
    by (simp_all add: acc'_def)
  show ?case
  proof (cases "selectedTotalSat acc' \<ge> t + feeSat acc'")
    case True
    with step here show ?thesis by simp
  next
    case False
    with step have eq: "selectIncrementally P n t addrs rate acc (u # us)
        = selectIncrementally P n t addrs rate acc' us" by simp
    from Cons.IH [of acc'] here show ?thesis unfolding eq by auto
  qed
qed


lemma selectInputUtxos_sweep:
  "feeSat (selectInputUtxos P us t addrs rate True uu)
     = estimateTxFee P rate (int (length (selectedUtxos (selectInputUtxos P us t addrs rate True uu))))
         0 addrs"
  by (simp add: selectInputUtxos_def Let_def)

lemma selectInputUtxos_targeted:
  fixes P us t addrs rate uu
  defines "sel \<equiv> selectInputUtxos P us t addrs rate False uu"
  shows "(selectedUtxos sel = [] \<and> selectedTotalSat sel = 0 \<and> feeSat sel = 0)
       \<or> (length (selectedUtxos sel) = 1
          \<and> feeSat sel = estimateTxFee P rate 1 0 addrs
          \<and> t + feeSat sel \<le> selectedTotalSat sel
          \<and> selectedTotalSat sel \<le> t + feeSat sel + dustThreshold P)
       \<or> (selectedUtxos sel \<noteq> []
          \<and> feeSat sel = estimateTxFee P rate (int (length (selectedUtxos sel)))
               (determineTargetChangeOutputCount P (int (length us))
                  (int (length (selectedUtxos sel)))) addrs)"
proof -
  let ?utxos = "filter (\<lambda>utxo. \<not> (\<not> uu \<and> \<not> isConfirmedUtxo P utxo)) us"
  let ?f = "estimateTxFee P rate 1 0 addrs"
  let ?found = "find (\<lambda>utxo. satoshis utxo \<ge> t + ?f \<and> satoshis utxo \<le> t + ?f + dustThreshold P) ?utxos"
  show ?thesis
  proof (cases ?found)
    case (Some u)
    then have "sel = \<lparr>selectedUtxos = [u], selectedTotalSat = satoshis u, feeSat = ?f\<rparr>"
      by (simp add: sel_def selectInputUtxos_def Let_def)
    moreover from Some have "satoshis u \<ge> t + ?f \<and> satoshis u \<le> t + ?f + dustThreshold P"
      by (auto simp: find_Some_iff)
    ultimately show ?thesis by simp
  next
    case None
    then have eq: "sel = selectIncrementally P (int (length us)) t addrs rate
        \<lparr>selectedUtxos = [], selectedTotalSat = 0, feeSat = 0\<rparr> (sortUtxos P ?utxos)"
      by (simp add: sel_def selectInputUtxos_def Let_def)
    from selectIncrementally_cases [of P "int (length us)" t addrs rate
        "\<lparr>selectedUtxos = [], selectedTotalSat = 0, feeSat = 0\<rparr>" "sortUtxos P ?utxos"]
    show ?thesis unfolding eq by auto
  qed
qed

lemma ceiling_share_ge:
  fixes f n :: int
  assumes "0 < n"
  shows "f \<le> \<lceil>(of_int f :: rat) / of_int n\<rceil> * n"
proof -
  have "(of_int f :: rat) / of_int n \<le> of_int \<lceil>(of_int f :: rat) / of_int n\<rceil>"
    by (rule le_of_int_ceiling)
  moreover from assms have "0 < (of_int n :: rat)" by simp
  ultimately have "(of_int f :: rat) \<le> of_int \<lceil>(of_int f :: rat) / of_int n\<rceil> * of_int n"
    by (simp only: pos_divide_le_eq)
  then have "(of_int f :: rat) \<le> of_int (\<lceil>(of_int f :: rat) / of_int n\<rceil> * n)"
    by simp
  then show ?thesis by (simp only: of_int_le_iff)
qed

lemma subtractFeeShare_Inr:
  "subtractFeeShare P fs i es = Inr res \<Longrightarrow>
     res = map (\<lambda>e. e\<lparr>outSatoshis := outSatoshis e - fs\<rparr>) es
     \<and> (\<forall>e \<in> set es. dustThreshold P < outSatoshis e - fs)"
  by (induction es arbitrary: i res) (auto simp: Let_def split: if_splits sum.splits)

lemma subtractFeeShare_Inl:
  "subtractFeeShare P fs i es = Inl err \<Longrightarrow>
     \<exists>j s. err = DustOutput j s fs \<and> i \<le> j \<and> j < i + length es
        \<and> s = outSatoshis (es ! (j - i)) - fs \<and> s \<le> dustThreshold P"
proof (induction es arbitrary: i)
  case Nil
  then show ?case by simp
next
  case (Cons e es)
  show ?case
  proof (cases "outSatoshis e - fs \<le> dustThreshold P")
    case True
    with Cons.prems have "err = DustOutput i (outSatoshis e - fs) fs" by (simp add: Let_def)
    with True show ?thesis by auto
  next
    case False
    with Cons.prems have "subtractFeeShare P fs (Suc i) es = Inl err"
      by (simp add: Let_def split: sum.splits)
    from Cons.IH [OF this] obtain j s where
      js: "err = DustOutput j s fs" "Suc i \<le> j" "j < Suc i + length es"
        "s = outSatoshis (es ! (j - Suc i)) - fs" "s \<le> dustThreshold P"
      by blast
    from js(2) have "(e # es) ! (j - i) = es ! (j - Suc i)"
      by (simp add: nth_Cons')
    with js show ?thesis by auto
  qed
qed

lemma subtractFeeShare_total:
  "(\<forall>e \<in> set es. dustThreshold P < outSatoshis e - fs) \<Longrightarrow>
   subtractFeeShare P fs i es = Inr (map (\<lambda>e. e\<lparr>outSatoshis := outSatoshis e - fs\<rparr>) es)"
  by (induction es arbitrary: i) (simp_all add: Let_def)

lemma sum_list_subtract:
  "sum_list (map (outSatoshis \<circ> (\<lambda>e. e\<lparr>outSatoshis := outSatoshis e - fs\<rparr>)) es)
     = sum_list (map outSatoshis es) - fs * int (length es)"
  by (induction es) (simp_all add: algebra_simps)

lemma sum_list_add_extra:
  "sum_list (map (outSatoshis \<circ> (\<lambda>e. e\<lparr>outSatoshis := outSatoshis e + x\<rparr>)) es)
     = sum_list (map outSatoshis es) + x * int (length es)"
  by (induction es) (simp_all add: algebra_simps)

lemma accountForSweep_Inr:
  assumes "accountForSweep P ext extTotal inputTotal fee0 = Inr (ext', extTotal', fee')"
    and "sum_list (map outSatoshis ext) = extTotal"
  shows "sum_list (map outSatoshis ext') = extTotal'"
    and "extTotal' + fee' \<le> inputTotal"
    and "map outAddress ext' = map outAddress ext"
    and "fee0 \<le> fee'"
    and "ext' = ext \<or> (\<forall>e \<in> set ext'. dustThreshold P < outSatoshis e)"
proof -
  show "sum_list (map outSatoshis ext') = extTotal'" "extTotal' + fee' \<le> inputTotal"
    "map outAddress ext' = map outAddress ext"
    "ext' = ext \<or> (\<forall>e \<in> set ext'. dustThreshold P < outSatoshis e)"
    using assms
    by (auto simp: accountForSweep_def Let_def sum_list_subtract
        split: if_splits sum.splits dest!: subtractFeeShare_Inr)
  show "fee0 \<le> fee'"
  proof (cases "extTotal + fee0 > inputTotal")
    case False
    with assms(1) show ?thesis by (simp add: accountForSweep_def)
  next
    case True
    with assms(1) have ne: "0 < int (length ext)"
      and "fee' = \<lceil>(of_int fee0 :: rat) / of_int (int (length ext))\<rceil> * int (length ext)"
      by (auto simp: accountForSweep_def Let_def split: if_splits sum.splits)
    with ceiling_share_ge [OF ne, of fee0] show ?thesis by simp
  qed
qed


lemma allocateChange_kept:
  "o' \<in> set (allocateChange P T W ws) \<Longrightarrow>
     dustThreshold P < outSatoshis o' \<and> minChangeSat P \<le> outSatoshis o'"
  by (induction ws) (auto simp: Let_def split: if_splits)

lemma allocateChange_length: "length (allocateChange P T W ws) \<le> length ws"
  by (induction ws) (auto simp: Let_def)

lemma floor_share_le:
  fixes T w W :: int
  assumes "0 \<le> T" "0 \<le> w" "w \<le> W" "0 < W"
  shows "\<lfloor>(of_int T :: rat) * (of_int w / of_int W)\<rfloor> \<le> T"
    and "\<lfloor>(of_int T :: rat) * of_int w / of_int W\<rfloor> \<le> T"
proof -
  from assms have "(of_int w :: rat) / of_int W \<le> 1" by simp
  with assms(1) have "(of_int T :: rat) * (of_int w / of_int W) \<le> of_int T * 1"
    by (intro mult_left_mono) simp_all
  then have "\<lfloor>(of_int T :: rat) * (of_int w / of_int W)\<rfloor> \<le> \<lfloor>(of_int T :: rat)\<rfloor>"
    by (intro floor_mono) simp
  then show "\<lfloor>(of_int T :: rat) * (of_int w / of_int W)\<rfloor> \<le> T" by simp
  then show "\<lfloor>(of_int T :: rat) * of_int w / of_int W\<rfloor> \<le> T" by simp
qed

lemma allocateChange_le_total:
  assumes "0 \<le> T" "0 < W" "\<forall>w \<in> set ws. 0 \<le> weight w \<and> weight w \<le> W"
    and "o' \<in> set (allocateChange P T W ws)"
  shows "outSatoshis o' \<le> T"
  using assms(3,4)
  by (induction ws) (auto simp: Let_def floor_share_le(2) [OF assms(1) _ _ assms(2)] split: if_splits)

lemma sum_list_powers: "sum_list (map (\<lambda>i. (2::int) ^ i) [0..<n]) = 2 ^ n - 1"
  by (induction n) simp_all

lemma createWeightedChangeOutputs_weights:
  "sum_list (map weight (createWeightedChangeOutputs t a)) = 2 ^ nat t - 1"
  "length (createWeightedChangeOutputs t a) = nat t"
  "w \<in> set (createWeightedChangeOutputs t a) \<Longrightarrow> 0 \<le> weight w \<and> weight w \<le> 2 ^ nat t - 1"
proof -
  show "sum_list (map weight (createWeightedChangeOutputs t a)) = 2 ^ nat t - 1"
    by (simp add: createWeightedChangeOutputs_def o_def sum_list_powers)
  show "length (createWeightedChangeOutputs t a) = nat t"
    by (simp add: createWeightedChangeOutputs_def)
  assume "w \<in> set (createWeightedChangeOutputs t a)"
  then obtain i where i: "i < nat t" "weight w = 2 ^ i"
    by (auto simp: createWeightedChangeOutputs_def)
  from i(1) have "Suc i \<le> nat t" by simp
  then have "(2::int) ^ Suc i \<le> 2 ^ nat t"
    by (rule power_increasing) simp
  moreover have "(2::int) ^ Suc i = 2 ^ i + 2 ^ i" by simp
  moreover have "(1::int) \<le> 2 ^ i" by simp
  ultimately have "(0::int) \<le> 2 ^ i \<and> (2::int) ^ i \<le> 2 ^ nat t - 1" by linarith
  then show "0 \<le> weight w \<and> weight w \<le> 2 ^ nat t - 1"
    by (simp only: i(2))
qed

lemma floor_quotient:
  "\<lfloor>(of_int a :: rat) / of_int b\<rfloor> = a div b"
  "\<lfloor>(of_int a :: rat) / of_nat n\<rfloor> = a div int n"
proof -
  show "\<lfloor>(of_int a :: rat) / of_int b\<rfloor> = a div b"
    by (rule floor_divide_of_int_eq)
  have "\<lfloor>(of_int a :: rat) / of_int (int n)\<rfloor> = a div int n"
    by (rule floor_divide_of_int_eq)
  then show "\<lfloor>(of_int a :: rat) / of_nat n\<rfloor> = a div int n" by simp
qed

lemma reconcileLooseChange_Inr:
  assumes "reconcileLooseChange P a ch loose f t = Inr (ch', f', t')"
  shows "sum_list (map outSatoshis ch') + f' = sum_list (map outSatoshis ch) + loose + f"
    and "f \<le> f'"
    and "0 \<le> loose"
    and "(\<forall>c \<in> set ch. dustThreshold P < outSatoshis c) \<Longrightarrow>
           (\<forall>c \<in> set ch'. dustThreshold P < outSatoshis c)"
    and "ch \<noteq> [] \<Longrightarrow> (\<forall>c \<in> set ch. m \<le> outSatoshis c) \<Longrightarrow> (\<forall>c \<in> set ch'. m \<le> outSatoshis c)"
    and "length ch' = (if ch = [] \<and> dustThreshold P < loose then 1 else length ch)"
proof -
  show "sum_list (map outSatoshis ch') + f' = sum_list (map outSatoshis ch) + loose + f"
    using assms
    by (auto simp: reconcileLooseChange_def Let_def sum_list_add_extra algebra_simps
        split: if_splits)
  show nonneg: "0 \<le> loose"
    using assms by (auto simp: reconcileLooseChange_def split: if_splits)
  have mod: "0 \<le> loose - (loose div int (length ch)) * int (length ch)" if "ch \<noteq> []"
  proof -
    have "loose - (loose div int (length ch)) * int (length ch) = loose mod int (length ch)"
      by (simp add: minus_div_mult_eq_mod)
    moreover from that have "0 \<le> loose mod int (length ch)" by simp
    ultimately show ?thesis by simp
  qed
  show "f \<le> f'"
    using assms nonneg mod
    by (auto simp: reconcileLooseChange_def Let_def floor_quotient split: if_splits)
  have extra: "0 \<le> loose div int (length ch)"
    using nonneg by (simp add: pos_imp_zdiv_nonneg_iff div_int_pos_iff)
  show "(\<forall>c \<in> set ch'. dustThreshold P < outSatoshis c)"
    if "\<forall>c \<in> set ch. dustThreshold P < outSatoshis c"
  proof -
    have "dustThreshold P < outSatoshis c + loose div int (length ch)" if "c \<in> set ch" for c
      using \<open>\<forall>c \<in> set ch. dustThreshold P < outSatoshis c\<close> that extra by fastforce
    with assms that show ?thesis
      by (auto simp: reconcileLooseChange_def Let_def floor_quotient split: if_splits)
  qed
  show "(\<forall>c \<in> set ch'. m \<le> outSatoshis c)"
    if "ch \<noteq> []" "\<forall>c \<in> set ch. m \<le> outSatoshis c"
  proof -
    have "m \<le> outSatoshis c + loose div int (length ch)" if "c \<in> set ch" for c
      using \<open>\<forall>c \<in> set ch. m \<le> outSatoshis c\<close> that extra by fastforce
    with assms that show ?thesis
      by (auto simp: reconcileLooseChange_def Let_def floor_quotient split: if_splits)
  qed
  show "length ch' = (if ch = [] \<and> dustThreshold P < loose then 1 else length ch)"
    using assms
    by (auto simp: reconcileLooseChange_def Let_def split: if_splits)
qed


lemma convertDesiredOutputs_Inr:
  "convertDesiredOutputs P i ds = Inr ext \<Longrightarrow>
     (\<forall>e \<in> set ext. 0 < outSatoshis e) \<and> map outAddress ext = map address ds
     \<and> (\<forall>d \<in> set ds. isValidAddress P (address d))"
  by (induction ds arbitrary: i ext)
     (auto simp: Let_def split: if_splits option.splits sum.splits)

lemma selectInputUtxos_fee_nonneg:
  assumes "0 \<le> networkMinRelayFee P"
  shows "0 \<le> feeSat (selectInputUtxos P us t addrs rate ua uu)"
proof (cases ua)
  case True
  with selectInputUtxos_sweep [of P us t addrs rate uu]
    estimateTxFee_ge_relay [of P rate _ 0 addrs] assms
  show ?thesis by (auto intro: order_trans)
next
  case False
  with selectInputUtxos_targeted [of P us t addrs rate uu] assms
  show ?thesis
    by (auto intro: order_trans [OF _ estimateTxFee_ge_relay])
qed

lemma handleChange_Inr:
  assumes "handleChange P rate a u n addrs inputTotal extTotal fee1 = Inr (ch, fee2, t)"
  shows "sum_list (map outSatoshis ch) + fee2 = inputTotal - extTotal"
    and "\<forall>c \<in> set ch. dustThreshold P < outSatoshis c"
    and "fee1 \<le> fee2 \<or> networkMinRelayFee P \<le> fee2"
proof -
  define T where "T = inputTotal - extTotal - fee1"
  define ws where "ws = createWeightedChangeOutputs (determineTargetChangeOutputCount P u n) a"
  define alloc where "alloc = allocateChange P T (sum_list (map weight ws)) ws"
  define recalc where "recalc = estimateTxFee P rate n
      (if length alloc = 0 then 1 else int (length alloc)) addrs"
  define over where "over = (if fee1 > recalc then fee1 - recalc else 0)"
  define f where "f = (if fee1 > recalc then recalc else fee1)"
  from assms have rec: "reconcileLooseChange P a alloc
      (T - sum_list (map outSatoshis alloc) + over) f (T + over) = Inr (ch, fee2, t)"
    unfolding handleChange_def Let_def T_def ws_def alloc_def recalc_def over_def f_def
    by (simp split: if_splits)
  have fo: "f + over = fee1" by (simp add: f_def over_def)
  from reconcileLooseChange_Inr(1) [OF rec] fo
  show "sum_list (map outSatoshis ch) + fee2 = inputTotal - extTotal"
    by (simp add: T_def)
  have "\<forall>c \<in> set alloc. dustThreshold P < outSatoshis c"
    by (simp add: alloc_def allocateChange_kept)
  with reconcileLooseChange_Inr(4) [OF rec]
  show "\<forall>c \<in> set ch. dustThreshold P < outSatoshis c" by simp
  have "networkMinRelayFee P \<le> recalc"
    by (simp add: recalc_def estimateTxFee_ge_relay)
  with reconcileLooseChange_Inr(2) [OF rec]
  show "fee1 \<le> fee2 \<or> networkMinRelayFee P \<le> fee2"
    by (auto simp: f_def split: if_splits)
qed

lemma buildPaymentTx_Inr:
  assumes "buildPaymentTx P us ds ca rate ua uu = Inr plan"
  obtains ext0 sel ext extTotal fee1 ch fee2 t where
    "convertDesiredOutputs P 0 ds = Inr ext0"
    "isValidAddress P ca"
    "sel = selectInputUtxos P us (sum_list (map outSatoshis ext0)) (map outAddress ext0) rate
             (case ua of None \<Rightarrow> False | Some b \<Rightarrow> b) (case uu of None \<Rightarrow> False | Some b \<Rightarrow> b)"
    "accountForSweep P ext0 (sum_list (map outSatoshis ext0)) (selectedTotalSat sel) (feeSat sel)
       = Inr (ext, extTotal, fee1)"
    "handleChange P rate ca (int (length us)) (int (length (selectedUtxos sel)))
       (map outAddress ext0) (selectedTotalSat sel) extTotal fee1 = Inr (ch, fee2, t)"
    "plan = \<lparr>inputs = selectedUtxos sel, outputs = ext @ ch, fee = fee2, change = t,
             changeAddress = (if length ch = 1 then Some (outAddress (hd ch)) else None),
             changeOutputs = ch, externalOutputs = ext, externalOutputTotal = extTotal\<rparr>"
  using assms
  unfolding buildPaymentTx_def Let_def
  by (auto split: sum.splits if_splits prod.splits)

lemma determineTargetChangeOutputCount_ge_1:
  "1 \<le> determineTargetChangeOutputCount P unusedCount inputCount"
  by (simp add: determineTargetChangeOutputCount_def Let_def)

lemma allocateChange_sum_le:
  assumes "0 \<le> T" "0 < W" "\<forall>w \<in> set ws. 0 \<le> weight w"
  shows "(of_int (sum_list (map outSatoshis (allocateChange P T W ws))) :: rat)
           \<le> of_int T * of_int (sum_list (map weight ws)) / of_int W"
  using assms(3)
proof (induction ws)
  case Nil
  show ?case by simp
next
  case (Cons w ws)
  let ?share = "(of_int T :: rat) * (of_int (weight w) / of_int W)"
  from Cons.prems have w: "0 \<le> weight w" by simp
  with assms(1,2) have share: "0 \<le> ?share" by simp
  have fl: "(of_int \<lfloor>?share\<rfloor> :: rat) \<le> ?share" by (rule of_int_floor_le)
  from Cons have IH: "(of_int (sum_list (map outSatoshis (allocateChange P T W ws))) :: rat)
           \<le> of_int T * of_int (sum_list (map weight ws)) / of_int W" by simp
  have split: "(of_int T :: rat) * of_int (sum_list (map weight (w # ws))) / of_int W
      = ?share + of_int T * of_int (sum_list (map weight ws)) / of_int W"
    by (simp add: algebra_simps add_divide_distrib)
  show ?case
  proof (cases "\<lfloor>?share\<rfloor> \<le> dustThreshold P \<or> \<lfloor>?share\<rfloor> < minChangeSat P")
    case True
    then have "allocateChange P T W (w # ws) = allocateChange P T W ws"
      by (simp add: Let_def)
    with IH share split show ?thesis by simp
  next
    case False
    then have "allocateChange P T W (w # ws)
        = \<lparr>outAddress = changeOutputAddress w, outSatoshis = \<lfloor>?share\<rfloor>\<rparr>
            # allocateChange P T W ws"
      by (simp add: Let_def)
    then have "(of_int (sum_list (map outSatoshis (allocateChange P T W (w # ws)))) :: rat)
        = of_int \<lfloor>?share\<rfloor>
          + of_int (sum_list (map outSatoshis (allocateChange P T W ws)))"
      by simp
    with IH fl show ?thesis unfolding split by linarith
  qed
qed

lemma allocated_le_total:
  assumes "0 \<le> T"
  shows "sum_list (map outSatoshis
           (allocateChange P T (sum_list (map weight (createWeightedChangeOutputs t a)))
              (createWeightedChangeOutputs t a))) \<le> T"
proof (cases "0 < nat t")
  case False
  then have "createWeightedChangeOutputs t a = []"
    by (simp add: createWeightedChangeOutputs_def)
  with assms show ?thesis by simp
next
  case True
  let ?ws = "createWeightedChangeOutputs t a"
  let ?W = "sum_list (map weight ?ws)"
  have "(2::int) ^ 1 \<le> 2 ^ nat t"
    using True by (intro power_increasing) simp_all
  then have W: "0 < ?W" by (simp add: createWeightedChangeOutputs_weights(1))
  have "\<forall>w \<in> set ?ws. 0 \<le> weight w"
    using createWeightedChangeOutputs_weights(3) by blast
  from allocateChange_sum_le [OF assms W this, of P]
  have "(of_int (sum_list (map outSatoshis (allocateChange P T ?W ?ws))) :: rat) \<le> of_int T"
    using W by simp
  then show ?thesis by (simp only: of_int_le_iff)
qed

lemma reconcileLooseChange_total:
  "0 \<le> loose \<Longrightarrow> \<exists>r. reconcileLooseChange P a ch loose f t = Inr r"
  by (simp add: reconcileLooseChange_def Let_def)

lemma handleChange_total:
  assumes "extTotal + fee1 \<le> inputTotal"
  shows "\<exists>r. handleChange P rate a u n addrs inputTotal extTotal fee1 = Inr r"
proof -
  define T where "T = inputTotal - extTotal - fee1"
  from assms have T: "0 \<le> T" by (simp add: T_def)
  define ws where "ws = createWeightedChangeOutputs (determineTargetChangeOutputCount P u n) a"
  define alloc where "alloc = allocateChange P T (sum_list (map weight ws)) ws"
  define recalc where "recalc = estimateTxFee P rate n
      (if length alloc = 0 then 1 else int (length alloc)) addrs"
  define over where "over = (if fee1 > recalc then fee1 - recalc else 0)"
  define f where "f = (if fee1 > recalc then recalc else fee1)"
  have eq: "handleChange P rate a u n addrs inputTotal extTotal fee1
      = reconcileLooseChange P a alloc (T - sum_list (map outSatoshis alloc) + over) f (T + over)"
    unfolding handleChange_def Let_def T_def [symmetric] ws_def [symmetric]
      alloc_def [symmetric] recalc_def [symmetric] over_def [symmetric] f_def [symmetric]
    using T by simp
  have "sum_list (map outSatoshis alloc) \<le> T"
    unfolding alloc_def ws_def using T by (rule allocated_le_total)
  moreover have "0 \<le> over" by (simp add: over_def)
  ultimately have "0 \<le> T - sum_list (map outSatoshis alloc) + over" by simp
  from reconcileLooseChange_total [OF this] show ?thesis unfolding eq .
qed

lemma handleChange_minChange:
  assumes "handleChange P rate a u n addrs inputTotal extTotal fee1 = Inr (ch, fee2, t)"
    and "length ch \<noteq> 1 \<or> minChangeSat P \<le> dustThreshold P + 1"
  shows "\<forall>c \<in> set ch. minChangeSat P \<le> outSatoshis c"
proof -
  define T where "T = inputTotal - extTotal - fee1"
  define ws where "ws = createWeightedChangeOutputs (determineTargetChangeOutputCount P u n) a"
  define alloc where "alloc = allocateChange P T (sum_list (map weight ws)) ws"
  define recalc where "recalc = estimateTxFee P rate n
      (if length alloc = 0 then 1 else int (length alloc)) addrs"
  define over where "over = (if fee1 > recalc then fee1 - recalc else 0)"
  define f where "f = (if fee1 > recalc then recalc else fee1)"
  from assms(1) have rec: "reconcileLooseChange P a alloc
      (T - sum_list (map outSatoshis alloc) + over) f (T + over) = Inr (ch, fee2, t)"
    unfolding handleChange_def Let_def T_def ws_def alloc_def recalc_def over_def f_def
    by (simp split: if_splits)
  have kept: "\<forall>c \<in> set alloc. minChangeSat P \<le> outSatoshis c"
    by (simp add: alloc_def allocateChange_kept)
  show ?thesis
  proof (cases "alloc = []")
    case False
    from reconcileLooseChange_Inr(5) [OF rec False kept] show ?thesis .
  next
    case True
    show ?thesis
    proof (cases "length ch = 1")
      case False
      with reconcileLooseChange_Inr(6) [OF rec] True have "ch = []"
        by (simp split: if_splits)
      then show ?thesis by simp
    next
      case one: True
      with assms(2) have "minChangeSat P \<le> dustThreshold P + 1" by simp
      moreover from handleChange_Inr(2) [OF assms(1)]
      have "\<forall>c \<in> set ch. dustThreshold P < outSatoshis c" .
      ultimately show ?thesis by fastforce
    qed
  qed
qed


lemma convertDesiredOutputs_length:
  "convertDesiredOutputs P i ds = Inr ext \<Longrightarrow> length ext = length ds"
  by (induction ds arbitrary: i ext)
     (auto simp: Let_def split: if_splits option.splits sum.splits)

lemma feeRateToSatoshis_mono:
  assumes "feeRateType m = BasePerWeight \<longrightarrow> 0 \<le> feeRate m" and "c \<le> c'"
  shows "feeRateToSatoshis P m n c a \<le> feeRateToSatoshis P m n c' a"
proof (cases "feeRateType m = BasePerWeight")
  case False
  then show ?thesis by (simp add: feeRateToSatoshis_def)
next
  case True
  with assms(1) have "0 \<le> feeRate m" by simp
  moreover from assms(2) have "(of_int (estimateTxSize n c a) :: rat) \<le> of_int (estimateTxSize n c' a)"
    by (simp add: estimateTxSize_def)
  ultimately have "feeRate m * of_int (estimateTxSize n c a) \<le> feeRate m * of_int (estimateTxSize n c' a)"
    by (rule mult_left_mono [rotated])
  with True show ?thesis by (simp add: feeRateToSatoshis_def)
qed

lemma allocateChange_none:
  assumes "0 \<le> T" "T \<le> dustThreshold P"
  shows "allocateChange P T (sum_list (map weight (createWeightedChangeOutputs t a)))
           (createWeightedChangeOutputs t a) = []"
proof (cases "0 < nat t")
  case False
  then show ?thesis by (simp add: createWeightedChangeOutputs_def)
next
  case True
  let ?ws = "createWeightedChangeOutputs t a"
  let ?W = "sum_list (map weight ?ws)"
  have "(2::int) ^ 1 \<le> 2 ^ nat t"
    using True by (intro power_increasing) simp_all
  then have W: "0 < ?W" by (simp add: createWeightedChangeOutputs_weights(1))
  have ws: "\<forall>w \<in> set ?ws. 0 \<le> weight w \<and> weight w \<le> ?W"
    using createWeightedChangeOutputs_weights(3) [of _ t a]
    by (simp add: createWeightedChangeOutputs_weights(1))
  show ?thesis
  proof (rule ccontr)
    assume "allocateChange P T ?W ?ws \<noteq> []"
    then obtain c where c: "c \<in> set (allocateChange P T ?W ?ws)"
      by (cases "allocateChange P T ?W ?ws") auto
    from allocateChange_le_total [OF assms(1) W ws c] allocateChange_kept [OF c] assms(2)
    show False by simp
  qed
qed

lemma handleChange_fee_cases:
  assumes hc: "handleChange P rate a u n addrs inputTotal extTotal fee1 = Inr (ch, fee2, t)"
  shows "(\<exists>k. 1 \<le> k \<and> length ch \<le> k \<and> estimateTxFee P rate n (int k) addrs \<le> fee2)
       \<or> (fee1 \<le> fee2 \<and> int (length ch) \<le> determineTargetChangeOutputCount P u n
          \<and> (inputTotal - extTotal - fee1 \<le> dustThreshold P \<longrightarrow> ch = []))"
proof -
  define T where "T = inputTotal - extTotal - fee1"
  define tc where "tc = determineTargetChangeOutputCount P u n"
  define ws where "ws = createWeightedChangeOutputs tc a"
  define alloc where "alloc = allocateChange P T (sum_list (map weight ws)) ws"
  define k where "k = (if length alloc = 0 then 1 else length alloc)"
  define recalc where "recalc = estimateTxFee P rate n
      (if length alloc = 0 then 1 else int (length alloc)) addrs"
  define over where "over = (if fee1 > recalc then fee1 - recalc else 0)"
  define f where "f = (if fee1 > recalc then recalc else fee1)"
  from hc have T: "0 \<le> T"
    unfolding handleChange_def Let_def T_def by (simp split: if_splits)
  from hc have rec: "reconcileLooseChange P a alloc
      (T - sum_list (map outSatoshis alloc) + over) f (T + over) = Inr (ch, fee2, t)"
    unfolding handleChange_def Let_def T_def ws_def tc_def alloc_def recalc_def over_def f_def
    by (simp split: if_splits)
  have tc: "1 \<le> tc" by (simp add: tc_def determineTargetChangeOutputCount_ge_1)
  have "length alloc \<le> length ws" by (simp add: alloc_def allocateChange_length)
  then have len_alloc: "int (length alloc) \<le> tc"
    using tc by (simp add: ws_def createWeightedChangeOutputs_weights(2))
  have len_ch: "length ch \<le> k"
    using reconcileLooseChange_Inr(6) [OF rec] by (simp add: k_def split: if_splits)
  have recalc_k: "recalc = estimateTxFee P rate n (int k) addrs"
    by (simp add: recalc_def k_def)
  have f_le: "f \<le> fee2" by (rule reconcileLooseChange_Inr(2) [OF rec])
  show ?thesis
  proof (cases "fee1 > recalc")
    case True
    then have "f = recalc" by (simp add: f_def)
    moreover have "1 \<le> k" by (cases alloc) (simp_all add: k_def)
    ultimately have "1 \<le> k \<and> length ch \<le> k
        \<and> estimateTxFee P rate n (int k) addrs \<le> fee2"
      using f_le recalc_k len_ch by simp
    then show ?thesis by blast
  next
    case False
    then have f: "f = fee1" and over: "over = 0" by (simp_all add: f_def over_def)
    from len_ch len_alloc tc have "int (length ch) \<le> tc" by (simp add: k_def split: if_splits)
    moreover have "ch = []" if small: "T \<le> dustThreshold P"
    proof -
      from allocateChange_none [OF T small] have "alloc = []" by (simp add: alloc_def ws_def)
      with reconcileLooseChange_Inr(6) [OF rec] small over show ?thesis by simp
    qed
    ultimately show ?thesis using f_le f by (simp add: T_def tc_def)
  qed
qed


lemma sum_list_outSatoshis_pos:
  "xs \<noteq> [] \<Longrightarrow> \<forall>x \<in> set xs. 0 < outSatoshis x \<Longrightarrow> 0 < sum_list (map outSatoshis xs)"
proof (induction xs)
  case Nil
  then show ?case by simp
next
  case (Cons x xs)
  then show ?case by (cases xs) (simp_all add: add_pos_pos)
qed

lemma convertDesiredOutputs_errors:
  "convertDesiredOutputs P i ds = Inl e \<Longrightarrow>
     e \<noteq> NegativeTotalChange \<and> e \<noteq> NegativeLooseChange"
  by (induction ds arbitrary: i)
     (auto simp: Let_def split: if_splits option.splits sum.splits)

lemma accountForSweep_errors:
  "accountForSweep P ext extTotal inputTotal fee0 = Inl e \<Longrightarrow>
     e \<noteq> NegativeTotalChange \<and> e \<noteq> NegativeLooseChange"
  by (auto simp: accountForSweep_def Let_def split: if_splits sum.splits
      dest!: subtractFeeShare_Inl)

section \<open>Ripple balance monitor: lemmas\<close>

lemma stringLess_append: "stringLess (p @ x) (p @ y) = stringLess x y"
  by (induction p) simp_all

lemma digit_cases:
  assumes "k < (10::nat)"
  obtains "k = 0" | "k = 1" | "k = 2" | "k = 3" | "k = 4" | "k = 5" | "k = 6" | "k = 7"
    | "k = 8" | "k = 9"
  using assms by atomize_elim arith

lemma digit_char:
  assumes "k < 10"
  shows "isDigit (''0123456789'' ! k)" and "digitValue (''0123456789'' ! k) = k"
    and "''0123456789'' ! k \<noteq> CHR ''-''"
  using assms by (cases k rule: digit_cases; simp add: isDigit_def digitValue_def)+

lemma numberToString_digits:
  "numberToString n \<noteq> [] \<and> (\<forall>c \<in> set (numberToString n). isDigit c \<and> c \<noteq> CHR ''-'')"
proof (induction n rule: numberToString.induct)
  case (1 n)
  show ?case
  proof (cases "n < 10")
    case True
    then show ?thesis
      by (subst (1 2) numberToString.simps) (simp add: digit_char)
  next
    case False
    with 1 have "numberToString (n div 10) \<noteq> []
        \<and> (\<forall>c \<in> set (numberToString (n div 10)). isDigit c \<and> c \<noteq> CHR ''-'')" by simp
    moreover have "n mod 10 < 10" by simp
    ultimately show ?thesis using False
      by (subst (1 2) numberToString.simps) (simp add: digit_char)
  qed
qed

lemma numberToString_value:
  "foldl (\<lambda>acc c. 10 * acc + digitValue c) 0 (numberToString n) = n"
proof (induction n rule: numberToString.induct)
  case (1 n)
  show ?case
  proof (cases "n < 10")
    case True
    then show ?thesis
      by (subst numberToString.simps) (simp add: digit_char)
  next
    case False
    with 1 have "foldl (\<lambda>acc c. 10 * acc + digitValue c) 0 (numberToString (n div 10)) = n div 10"
      by simp
    moreover have "n mod 10 < 10" by simp
    ultimately show ?thesis using False
      by (subst numberToString.simps) (simp add: digit_char)
  qed
qed

lemma parseInt_numberToString: "parseInt (numberToString n) = Some (int n)"
proof -
  from numberToString_digits [of n]
  have whole: "takeWhile isDigit (numberToString n) = numberToString n"
    and "numberToString n \<noteq> []"
    by (simp_all add: takeWhile_eq_all_conv)
  then obtain d ds where eq: "numberToString n = d # ds"
    by (cases "numberToString n") simp_all
  have "parseInt (numberToString n)
      = (case numberToString n of
           [] \<Rightarrow> None
         | d # ds \<Rightarrow> Some (int (foldl (\<lambda>acc c. 10 * acc + digitValue c) 0 (d # ds))))"
    unfolding parseInt_def whole ..
  also have "\<dots> = Some (int (foldl (\<lambda>acc c. 10 * acc + digitValue c) 0 (numberToString n)))"
    unfolding eq by simp
  finally show ?thesis
    by (simp only: numberToString_value)
qed

lemma splitOn_no_separator: "c \<notin> set s \<Longrightarrow> splitOn c s = [s]"
  by (induction s) auto

lemma splitOn_separator:
  "c \<notin> set a \<Longrightarrow> splitOn c (a @ c # rest) = a # splitOn c rest"
  by (induction a) auto

lemma splitOn_range:
  "splitOn (CHR ''-'') (numberToString a @ CHR ''-'' # numberToString b)
     = [numberToString a, numberToString b]"
proof -
  from numberToString_digits [of a] have "CHR ''-'' \<notin> set (numberToString a)" by blast
  moreover from numberToString_digits [of b] have "CHR ''-'' \<notin> set (numberToString b)" by blast
  ultimately show ?thesis
    by (simp add: splitOn_separator splitOn_no_separator)
qed

lemma examplePayment_out:
  "paymentToBalanceActivities ''mainnet'' exampleGetLedger ''rSender'' examplePayment
     = Inr (Some exampleOutActivity)"
  by code_simp

lemma examplePayment_in:
  "paymentToBalanceActivities ''mainnet'' exampleGetLedger ''rReceiver'' examplePayment
     = Inr (Some exampleInActivity)"
  by code_simp

section \<open>C1: the balance of a plan\<close>

text \<open>
  Claim C1. For every plan that \<open>buildPaymentTx\<close> returns, whatever the unspent
  outputs, desired outputs, change address, fee rate and flags, the base-unit values of
  the selected inputs add up to the external outputs plus the change outputs plus the
  fee. With a dust threshold and a minimum relay fee that are not negative, the fee is
  not negative and every output is positive, so all four sums are non-negative
  integers.
\<close>

theorem buildPaymentTx_balance:
  assumes "buildPaymentTx P unusedUtxos desiredOutputs changeAddr rate useAll useUnconf = Inr plan"
  shows "sum_list (map satoshis (inputs plan))
           = sum_list (map outSatoshis (externalOutputs plan))
             + sum_list (map outSatoshis (changeOutputs plan)) + fee plan
       \<and> outputs plan = externalOutputs plan @ changeOutputs plan
       \<and> (0 \<le> dustThreshold P \<and> 0 \<le> networkMinRelayFee P \<longrightarrow>
            0 \<le> fee plan
          \<and> (\<forall>e \<in> set (externalOutputs plan). 0 < outSatoshis e)
          \<and> (\<forall>c \<in> set (changeOutputs plan). 0 < outSatoshis c)
          \<and> 0 \<le> sum_list (map outSatoshis (externalOutputs plan))
          \<and> 0 \<le> sum_list (map outSatoshis (changeOutputs plan))
          \<and> 0 \<le> sum_list (map satoshis (inputs plan)))"
proof -
  from assms obtain ext0 sel ext extTotal fee1 ch fee2 t where
    conv: "convertDesiredOutputs P 0 desiredOutputs = Inr ext0"
    and sel: "sel = selectInputUtxos P unusedUtxos (sum_list (map outSatoshis ext0))
             (map outAddress ext0) rate
             (case useAll of None \<Rightarrow> False | Some b \<Rightarrow> b)
             (case useUnconf of None \<Rightarrow> False | Some b \<Rightarrow> b)"
    and sweep: "accountForSweep P ext0 (sum_list (map outSatoshis ext0)) (selectedTotalSat sel)
         (feeSat sel) = Inr (ext, extTotal, fee1)"
    and hc: "handleChange P rate changeAddr (int (length unusedUtxos))
         (int (length (selectedUtxos sel))) (map outAddress ext0) (selectedTotalSat sel)
         extTotal fee1 = Inr (ch, fee2, t)"
    and plan: "plan = \<lparr>inputs = selectedUtxos sel, outputs = ext @ ch, fee = fee2, change = t,
             changeAddress = (if length ch = 1 then Some (outAddress (hd ch)) else None),
             changeOutputs = ch, externalOutputs = ext, externalOutputTotal = extTotal\<rparr>"
    by (rule buildPaymentTx_Inr)
  have total: "selectedTotalSat sel = sum_list (map satoshis (selectedUtxos sel))"
    unfolding sel by (rule selectInputUtxos_total)
  have balance: "sum_list (map satoshis (inputs plan))
           = sum_list (map outSatoshis (externalOutputs plan))
             + sum_list (map outSatoshis (changeOutputs plan)) + fee plan"
    using accountForSweep_Inr(1) [OF sweep refl] handleChange_Inr(1) [OF hc] total
    by (simp add: plan)
  have nonneg: "0 \<le> fee plan
          \<and> (\<forall>e \<in> set (externalOutputs plan). 0 < outSatoshis e)
          \<and> (\<forall>c \<in> set (changeOutputs plan). 0 < outSatoshis c)"
    if wf: "0 \<le> dustThreshold P" "0 \<le> networkMinRelayFee P"
  proof -
    have "0 \<le> feeSat sel"
      unfolding sel using wf(2) by (rule selectInputUtxos_fee_nonneg)
    with accountForSweep_Inr(4) [OF sweep refl] have "0 \<le> fee1" by simp
    with handleChange_Inr(3) [OF hc] wf(2) have "0 \<le> fee2" by auto
    moreover from convertDesiredOutputs_Inr [OF conv] accountForSweep_Inr(5) [OF sweep refl] wf(1)
    have "\<forall>e \<in> set ext. 0 < outSatoshis e" by fastforce
    moreover from handleChange_Inr(2) [OF hc] wf(1)
    have "\<forall>c \<in> set ch. 0 < outSatoshis c" by fastforce
    ultimately show ?thesis by (simp add: plan)
  qed
  have sums: "0 \<le> sum_list (map outSatoshis xs)" if "\<forall>x \<in> set xs. 0 < outSatoshis x" for xs
    using that by (induction xs) auto
  from balance nonneg sums [of "externalOutputs plan"] sums [of "changeOutputs plan"]
  show ?thesis
    by (auto simp: plan)
qed

theorem buildPaymentTx_balance_witness:
  "buildPaymentTx poolFillPayments [exampleUtxo ''a'' 1000000]
     [\<lparr>address = ''A'', mainValue = Some (100000 / 10 ^ 8)\<rparr>] ''C''
     \<lparr>feeRate = 2000, feeRateType = Base\<rparr> None None = Inr poolFillPlan
   \<and> 0 \<le> dustThreshold poolFillPayments \<and> 0 \<le> networkMinRelayFee poolFillPayments
   \<and> sum_list (map satoshis (inputs poolFillPlan))
       = sum_list (map outSatoshis (externalOutputs poolFillPlan))
         + sum_list (map outSatoshis (changeOutputs poolFillPlan)) + fee poolFillPlan
   \<and> sum_list (map satoshis (inputs poolFillPlan)) = 1000000
   \<and> 0 \<le> fee poolFillPlan"
proof -
  have run: "buildPaymentTx poolFillPayments [exampleUtxo ''a'' 1000000]
     [\<lparr>address = ''A'', mainValue = Some (100000 / 10 ^ 8)\<rparr>] ''C''
     \<lparr>feeRate = 2000, feeRateType = Base\<rparr> None None = Inr poolFillPlan"
    by code_simp
  have wf: "0 \<le> dustThreshold poolFillPayments \<and> 0 \<le> networkMinRelayFee poolFillPayments"
    by (simp add: poolFillPayments_def examplePayments_def)
  from buildPaymentTx_balance [OF run] wf run show ?thesis
    by (simp add: poolFillPlan_def exampleUtxo_def)
qed

section \<open>C2: dust and minimum change\<close>

text \<open>
  Claim C2, as the code has it. In every plan that \<open>buildPaymentTx\<close> returns, each
  change output is worth more than the dust threshold. An external output is only
  checked to be positive: it is worth more than the dust threshold when the fee was
  subtracted from the external outputs (the full-balance case), and otherwise it is the
  desired output, unchanged. Every change output that the weighted split keeps is worth
  at least \<open>minChangeSat\<close> (and more than the dust threshold), so the change outputs of a
  plan are worth at least \<open>minChangeSat\<close> whenever the plan does not have exactly one of
  them or \<open>minChangeSat\<close> is at most one above the dust threshold. A single change
  output can be the loose change, put into one output when the split kept none; it is
  only compared with the dust threshold.
\<close>

theorem buildPaymentTx_output_bounds:
  assumes "buildPaymentTx P unusedUtxos desiredOutputs changeAddr rate useAll useUnconf = Inr plan"
  shows "(\<forall>c \<in> set (changeOutputs plan). dustThreshold P < outSatoshis c)
       \<and> (0 \<le> dustThreshold P \<longrightarrow> (\<forall>e \<in> set (externalOutputs plan). 0 < outSatoshis e))
       \<and> (\<forall>ext0. convertDesiredOutputs P 0 desiredOutputs = Inr ext0 \<longrightarrow>
             externalOutputs plan = ext0
             \<or> (\<forall>e \<in> set (externalOutputs plan). dustThreshold P < outSatoshis e))
       \<and> (length (changeOutputs plan) \<noteq> 1 \<or> minChangeSat P \<le> dustThreshold P + 1 \<longrightarrow>
             (\<forall>c \<in> set (changeOutputs plan). minChangeSat P \<le> outSatoshis c))
       \<and> (\<forall>T W ws. \<forall>c \<in> set (allocateChange P T W ws).
             dustThreshold P < outSatoshis c \<and> minChangeSat P \<le> outSatoshis c)"
proof -
  from assms obtain ext0 sel ext extTotal fee1 ch fee2 t where
    conv: "convertDesiredOutputs P 0 desiredOutputs = Inr ext0"
    and "isValidAddress P changeAddr"
    and "sel = selectInputUtxos P unusedUtxos (sum_list (map outSatoshis ext0))
             (map outAddress ext0) rate
             (case useAll of None \<Rightarrow> False | Some b \<Rightarrow> b)
             (case useUnconf of None \<Rightarrow> False | Some b \<Rightarrow> b)"
    and sweep: "accountForSweep P ext0 (sum_list (map outSatoshis ext0)) (selectedTotalSat sel)
         (feeSat sel) = Inr (ext, extTotal, fee1)"
    and hc: "handleChange P rate changeAddr (int (length unusedUtxos))
         (int (length (selectedUtxos sel))) (map outAddress ext0) (selectedTotalSat sel)
         extTotal fee1 = Inr (ch, fee2, t)"
    and plan: "plan = \<lparr>inputs = selectedUtxos sel, outputs = ext @ ch, fee = fee2, change = t,
             changeAddress = (if length ch = 1 then Some (outAddress (hd ch)) else None),
             changeOutputs = ch, externalOutputs = ext, externalOutputTotal = extTotal\<rparr>"
    by (rule buildPaymentTx_Inr)
  have changes: "\<forall>c \<in> set (changeOutputs plan). dustThreshold P < outSatoshis c"
    using handleChange_Inr(2) [OF hc] by (simp add: plan)
  have ext_cases: "externalOutputs plan = ext0
      \<or> (\<forall>e \<in> set (externalOutputs plan). dustThreshold P < outSatoshis e)"
    using accountForSweep_Inr(5) [OF sweep refl] by (simp add: plan)
  have positive: "\<forall>e \<in> set (externalOutputs plan). 0 < outSatoshis e"
    if "0 \<le> dustThreshold P"
    using ext_cases convertDesiredOutputs_Inr [OF conv] that by fastforce
  have minChange: "\<forall>c \<in> set (changeOutputs plan). minChangeSat P \<le> outSatoshis c"
    if "length (changeOutputs plan) \<noteq> 1 \<or> minChangeSat P \<le> dustThreshold P + 1"
    using handleChange_minChange [OF hc] that by (simp add: plan)
  from changes positive ext_cases minChange conv show ?thesis
    by (auto simp: allocateChange_kept)
qed

theorem buildPaymentTx_output_bounds_witness:
  "buildPaymentTx minChangeSplitPayments [exampleUtxo ''a'' 1000000]
     [\<lparr>address = ''A'', mainValue = Some (100000 / 10 ^ 8)\<rparr>] ''C''
     \<lparr>feeRate = 2000, feeRateType = Base\<rparr> None None = Inr minChangeSplitPlan
   \<and> 0 \<le> dustThreshold minChangeSplitPayments
   \<and> 0 < minChangeSat minChangeSplitPayments
   \<and> convertDesiredOutputs minChangeSplitPayments 0
        [\<lparr>address = ''A'', mainValue = Some (100000 / 10 ^ 8)\<rparr>]
       = Inr [\<lparr>outAddress = ''A'', outSatoshis = 100000\<rparr>]
   \<and> externalOutputs minChangeSplitPlan = [\<lparr>outAddress = ''A'', outSatoshis = 100000\<rparr>]
   \<and> list_all (\<lambda>e. 0 < outSatoshis e) (externalOutputs minChangeSplitPlan)
   \<and> length (changeOutputs minChangeSplitPlan) = 3
   \<and> list_all (\<lambda>c. dustThreshold minChangeSplitPayments < outSatoshis c)
        (changeOutputs minChangeSplitPlan)
   \<and> list_all (\<lambda>c. minChangeSat minChangeSplitPayments \<le> outSatoshis c)
        (changeOutputs minChangeSplitPlan)
   \<and> allocateChange minChangeSplitPayments 898000 15 (createWeightedChangeOutputs 4 ''C'')
       = [\<lparr>outAddress = ''C'', outSatoshis = 119733\<rparr>,
          \<lparr>outAddress = ''C'', outSatoshis = 239466\<rparr>,
          \<lparr>outAddress = ''C'', outSatoshis = 478933\<rparr>]
   \<and> list_all (\<lambda>c. dustThreshold minChangeSplitPayments < outSatoshis c
                    \<and> minChangeSat minChangeSplitPayments \<le> outSatoshis c)
        (allocateChange minChangeSplitPayments 898000 15 (createWeightedChangeOutputs 4 ''C''))"
proof -
  have run: "buildPaymentTx minChangeSplitPayments [exampleUtxo ''a'' 1000000]
     [\<lparr>address = ''A'', mainValue = Some (100000 / 10 ^ 8)\<rparr>] ''C''
     \<lparr>feeRate = 2000, feeRateType = Base\<rparr> None None = Inr minChangeSplitPlan"
    by code_simp
  have conv: "convertDesiredOutputs minChangeSplitPayments 0
        [\<lparr>address = ''A'', mainValue = Some (100000 / 10 ^ 8)\<rparr>]
       = Inr [\<lparr>outAddress = ''A'', outSatoshis = 100000\<rparr>]"
    by code_simp
  have split: "allocateChange minChangeSplitPayments 898000 15
        (createWeightedChangeOutputs 4 ''C'')
       = [\<lparr>outAddress = ''C'', outSatoshis = 119733\<rparr>,
          \<lparr>outAddress = ''C'', outSatoshis = 239466\<rparr>,
          \<lparr>outAddress = ''C'', outSatoshis = 478933\<rparr>]"
    by code_simp
  have cfg: "dustThreshold minChangeSplitPayments = 546"
    "minChangeSat minChangeSplitPayments = 100000"
    by (simp_all add: minChangeSplitPayments_def examplePayments_def)
  from buildPaymentTx_output_bounds [OF run] run conv split cfg show ?thesis
    by (simp add: minChangeSplitPlan_def)
qed

text \<open>
  Claim C2 as stated fails twice: an external output of 500 is emitted although the
  dust threshold is 546, and a single change output of 5000, made of the loose change
  after the weighted split kept nothing, is emitted although \<open>minChangeSat\<close> is 10000.
\<close>

theorem buildPaymentTx_external_dust_counterexample:
  "buildPaymentTx examplePayments [exampleUtxo ''a'' 10000]
     [\<lparr>address = ''A'', mainValue = Some (500 / 10 ^ 8)\<rparr>] ''C''
     \<lparr>feeRate = 1000, feeRateType = Base\<rparr> None None = Inr dustyPlan
   \<and> \<lparr>outAddress = ''A'', outSatoshis = 500\<rparr> \<in> set (outputs dustyPlan)
   \<and> \<not> dustThreshold examplePayments < 500
   \<and> buildPaymentTx minChangePayments [exampleUtxo ''a'' 10000]
     [\<lparr>address = ''A'', mainValue = Some (4000 / 10 ^ 8)\<rparr>] ''C''
     \<lparr>feeRate = 1000, feeRateType = Base\<rparr> None None = Inr minChangePlan
   \<and> 0 < minChangeSat minChangePayments
   \<and> \<lparr>outAddress = ''C'', outSatoshis = 5000\<rparr> \<in> set (changeOutputs minChangePlan)
   \<and> \<not> minChangeSat minChangePayments \<le> 5000"
proof -
  have "buildPaymentTx examplePayments [exampleUtxo ''a'' 10000]
     [\<lparr>address = ''A'', mainValue = Some (500 / 10 ^ 8)\<rparr>] ''C''
     \<lparr>feeRate = 1000, feeRateType = Base\<rparr> None None = Inr dustyPlan"
    by code_simp
  moreover have "buildPaymentTx minChangePayments [exampleUtxo ''a'' 10000]
     [\<lparr>address = ''A'', mainValue = Some (4000 / 10 ^ 8)\<rparr>] ''C''
     \<lparr>feeRate = 1000, feeRateType = Base\<rparr> None None = Inr minChangePlan"
    by code_simp
  ultimately show ?thesis
    by (simp add: dustyPlan_def minChangePlan_def minChangePayments_def examplePayments_def)
qed

section \<open>C3: shortfall after input selection\<close>

text \<open>
  Claim C3, for at least one desired output. Let the desired outputs be valid and not
  empty, and let the external total
  plus the fee exceed the selected input total after input selection. If the external
  total equals the input total, the fee becomes \<open>feeShare\<close> times the number of
  external outputs, with \<open>feeShare\<close> the fee divided by that number and rounded up,
  and \<open>feeShare\<close> is subtracted from each external output; the call returns a plan
  with these outputs when each of them stays above the dust threshold, and fails with
  \<open>DustOutput\<close> at an output at or below it otherwise. If the totals differ, the call
  fails with an error that reports the input total, the external total and the fee.
\<close>

theorem buildPaymentTx_shortfall:
  fixes P unusedUtxos desiredOutputs changeAddr rate useAll useUnconf ext0
    and extTotal sel feeShare reduced
  defines "extTotal \<equiv> sum_list (map outSatoshis ext0)"
    and "sel \<equiv> selectInputUtxos P unusedUtxos (sum_list (map outSatoshis ext0))
                 (map outAddress ext0) rate
                 (case useAll of None \<Rightarrow> False | Some b \<Rightarrow> b)
                 (case useUnconf of None \<Rightarrow> False | Some b \<Rightarrow> b)"
    and "feeShare \<equiv> \<lceil>(of_int (feeSat sel) :: rat) / of_int (int (length ext0))\<rceil>"
    and "reduced \<equiv> map (\<lambda>e. e\<lparr>outSatoshis := outSatoshis e - feeShare\<rparr>) ext0"
  assumes conv: "convertDesiredOutputs P 0 desiredOutputs = Inr ext0"
    and valid: "isValidAddress P changeAddr"
    and nonempty: "desiredOutputs \<noteq> []"
    and short: "extTotal + feeSat sel > selectedTotalSat sel"
  shows "(extTotal = selectedTotalSat sel
            \<and> (\<forall>e \<in> set ext0. dustThreshold P < outSatoshis e - feeShare) \<longrightarrow>
          accountForSweep P ext0 extTotal (selectedTotalSat sel) (feeSat sel)
            = Inr (reduced, extTotal - feeShare * int (length ext0),
                   feeShare * int (length ext0))
          \<and> (\<exists>plan. buildPaymentTx P unusedUtxos desiredOutputs changeAddr rate useAll useUnconf
                       = Inr plan
                \<and> externalOutputs plan = reduced
                \<and> externalOutputTotal plan = extTotal - feeShare * int (length ext0)))
       \<and> (extTotal = selectedTotalSat sel
            \<and> (\<exists>e \<in> set ext0. outSatoshis e - feeShare \<le> dustThreshold P) \<longrightarrow>
          (\<exists>i s. i < length ext0 \<and> s = outSatoshis (ext0 ! i) - feeShare
                \<and> s \<le> dustThreshold P
                \<and> buildPaymentTx P unusedUtxos desiredOutputs changeAddr rate useAll useUnconf
                    = Inl (DustOutput i s feeShare)))
       \<and> (extTotal \<noteq> selectedTotalSat sel \<longrightarrow>
          buildPaymentTx P unusedUtxos desiredOutputs changeAddr rate useAll useUnconf
            = Inl (InsufficientUtxos (selectedTotalSat sel) extTotal (feeSat sel)))"
proof -
  let ?build = "buildPaymentTx P unusedUtxos desiredOutputs changeAddr rate useAll useUnconf"
  let ?n = "int (length ext0)"
  have build: "?build =
      (case accountForSweep P ext0 extTotal (selectedTotalSat sel) (feeSat sel) of
         Inl e \<Rightarrow> Inl e
       | Inr (ext, extTotal', fee1) \<Rightarrow>
           (case handleChange P rate changeAddr (int (length unusedUtxos))
                   (int (length (selectedUtxos sel))) (map outAddress ext0)
                   (selectedTotalSat sel) extTotal' fee1 of
              Inl e \<Rightarrow> Inl e
            | Inr (ch, fee2, t) \<Rightarrow>
                Inr \<lparr>inputs = selectedUtxos sel, outputs = ext @ ch, fee = fee2, change = t,
                     changeAddress =
                       (if length ch = 1 then Some (outAddress (hd ch)) else None),
                     changeOutputs = ch, externalOutputs = ext,
                     externalOutputTotal = extTotal'\<rparr>))"
    by (simp add: buildPaymentTx_def Let_def conv valid sel_def extTotal_def
        split: sum.splits prod.splits)
  from conv nonempty have ne: "length ext0 \<noteq> 0"
    by (simp add: convertDesiredOutputs_length)
  have sweep: "accountForSweep P ext0 extTotal (selectedTotalSat sel) (feeSat sel)
      = (case subtractFeeShare P feeShare 0 ext0 of
           Inl err \<Rightarrow> Inl err
         | Inr ext \<Rightarrow> Inr (ext, extTotal - feeShare * ?n, feeShare * ?n))"
    if "extTotal = selectedTotalSat sel"
    unfolding accountForSweep_def Let_def feeShare_def
    using short that ne by (simp split: sum.splits)
  have full: "accountForSweep P ext0 extTotal (selectedTotalSat sel) (feeSat sel)
            = Inr (reduced, extTotal - feeShare * ?n, feeShare * ?n)
          \<and> (\<exists>plan. ?build = Inr plan \<and> externalOutputs plan = reduced
                \<and> externalOutputTotal plan = extTotal - feeShare * ?n)"
    if eq: "extTotal = selectedTotalSat sel"
      and ok: "\<forall>e \<in> set ext0. dustThreshold P < outSatoshis e - feeShare"
  proof -
    from subtractFeeShare_total [OF ok, of 0]
    have acc: "accountForSweep P ext0 extTotal (selectedTotalSat sel) (feeSat sel)
            = Inr (reduced, extTotal - feeShare * ?n, feeShare * ?n)"
      by (simp add: sweep [OF eq] reduced_def)
    have "(extTotal - feeShare * ?n) + feeShare * ?n \<le> selectedTotalSat sel"
      using eq by simp
    from handleChange_total [OF this]
    obtain r where "handleChange P rate changeAddr (int (length unusedUtxos))
                   (int (length (selectedUtxos sel))) (map outAddress ext0)
                   (selectedTotalSat sel) (extTotal - feeShare * ?n) (feeShare * ?n) = Inr r"
      by blast
    with acc build have "\<exists>plan. ?build = Inr plan \<and> externalOutputs plan = reduced
                \<and> externalOutputTotal plan = extTotal - feeShare * ?n"
      by (cases r) simp
    with acc show ?thesis by simp
  qed
  have dust: "\<exists>i s. i < length ext0 \<and> s = outSatoshis (ext0 ! i) - feeShare
                \<and> s \<le> dustThreshold P \<and> ?build = Inl (DustOutput i s feeShare)"
    if eq: "extTotal = selectedTotalSat sel"
      and bad: "\<exists>e \<in> set ext0. outSatoshis e - feeShare \<le> dustThreshold P"
  proof (cases "subtractFeeShare P feeShare 0 ext0")
    case (Inr res)
    from subtractFeeShare_Inr [OF this] bad show ?thesis by fastforce
  next
    case (Inl err)
    from subtractFeeShare_Inl [OF this] obtain j s where
      "err = DustOutput j s feeShare" "j < length ext0"
      "s = outSatoshis (ext0 ! j) - feeShare" "s \<le> dustThreshold P"
      by auto
    moreover from Inl build have "?build = Inl err"
      by (simp add: sweep [OF eq])
    ultimately show ?thesis by blast
  qed
  have insufficient: "?build = Inl (InsufficientUtxos (selectedTotalSat sel) extTotal (feeSat sel))"
    if "extTotal \<noteq> selectedTotalSat sel"
    using short that by (simp add: build accountForSweep_def)
  from full dust insufficient show ?thesis by blast
qed

theorem buildPaymentTx_shortfall_witness:
  "selectedTotalSat sweepSelection = 50000 \<and> feeSat sweepSelection = 3400
   \<and> selectedTotalSat sweepSelection < 50000 + feeSat sweepSelection
   \<and> dustThreshold examplePayments < 50000 - 3400
   \<and> buildPaymentTx examplePayments sweepUtxos
        [\<lparr>address = ''A'', mainValue = Some (50000 / 10 ^ 8)\<rparr>] ''C''
        sweepRate (Some True) None = Inr sweepPlan
   \<and> externalOutputs sweepPlan = [\<lparr>outAddress = ''A'', outSatoshis = 50000 - 3400\<rparr>]
   \<and> fee sweepPlan = 3400 * 1
   \<and> selectedTotalSat dustSelection = 2000 \<and> feeSat dustSelection = 1920
   \<and> selectedTotalSat dustSelection < 2000 + feeSat dustSelection
   \<and> 2000 - 1920 \<le> dustThreshold examplePayments
   \<and> buildPaymentTx examplePayments [exampleUtxo ''a'' 2000]
        [\<lparr>address = ''A'', mainValue = Some (2000 / 10 ^ 8)\<rparr>] ''C''
        sweepRate (Some True) None = Inl (DustOutput 0 80 1920)
   \<and> selectedTotalSat shortSelection = 5000 \<and> feeSat shortSelection = 2260
   \<and> selectedTotalSat shortSelection < 10000 + feeSat shortSelection
   \<and> buildPaymentTx examplePayments [exampleUtxo ''a'' 5000]
        [\<lparr>address = ''A'', mainValue = Some (10000 / 10 ^ 8)\<rparr>] ''C''
        sweepRate None None = Inl (InsufficientUtxos 5000 10000 2260)"
proof -
  have valid: "isValidAddress examplePayments ''C''"
    by code_simp
  let ?ds1 = "[\<lparr>address = ''A'', mainValue = Some (50000 / 10 ^ 8)\<rparr>]"
  let ?ext1 = "[\<lparr>outAddress = ''A'', outSatoshis = 50000\<rparr>]"
  have conv1: "convertDesiredOutputs examplePayments 0 ?ds1 = Inr ?ext1"
    by code_simp
  have sel1: "selectInputUtxos examplePayments sweepUtxos (sum_list (map outSatoshis ?ext1))
       (map outAddress ?ext1) sweepRate (case Some True of None \<Rightarrow> False | Some b \<Rightarrow> b)
       (case None of None \<Rightarrow> False | Some b \<Rightarrow> b) = sweepSelection"
    by (simp add: sweepSelection_def sweepRate_def)
  have vals1: "selectedTotalSat sweepSelection = 50000" "feeSat sweepSelection = 3400"
    by code_simp+
  have short1: "sum_list (map outSatoshis ?ext1)
      + feeSat (selectInputUtxos examplePayments sweepUtxos (sum_list (map outSatoshis ?ext1))
       (map outAddress ?ext1) sweepRate (case Some True of None \<Rightarrow> False | Some b \<Rightarrow> b)
       (case None of None \<Rightarrow> False | Some b \<Rightarrow> b))
      > selectedTotalSat (selectInputUtxos examplePayments sweepUtxos
       (sum_list (map outSatoshis ?ext1))
       (map outAddress ?ext1) sweepRate (case Some True of None \<Rightarrow> False | Some b \<Rightarrow> b)
       (case None of None \<Rightarrow> False | Some b \<Rightarrow> b))"
    unfolding sel1 vals1 by simp
  have run1: "buildPaymentTx examplePayments sweepUtxos ?ds1 ''C'' sweepRate (Some True) None
      = Inr sweepPlan"
    by code_simp
  have ne1: "?ds1 \<noteq> []" by simp
  note full = buildPaymentTx_shortfall [OF conv1 valid ne1 short1]
  let ?ds2 = "[\<lparr>address = ''A'', mainValue = Some (2000 / 10 ^ 8)\<rparr>]"
  let ?ext2 = "[\<lparr>outAddress = ''A'', outSatoshis = 2000\<rparr>]"
  have conv2: "convertDesiredOutputs examplePayments 0 ?ds2 = Inr ?ext2"
    by code_simp
  have sel2: "selectInputUtxos examplePayments [exampleUtxo ''a'' 2000]
       (sum_list (map outSatoshis ?ext2))
       (map outAddress ?ext2) sweepRate (case Some True of None \<Rightarrow> False | Some b \<Rightarrow> b)
       (case None of None \<Rightarrow> False | Some b \<Rightarrow> b) = dustSelection"
    by (simp add: dustSelection_def)
  have vals2: "selectedTotalSat dustSelection = 2000" "feeSat dustSelection = 1920"
    by code_simp+
  have short2: "sum_list (map outSatoshis ?ext2)
      + feeSat (selectInputUtxos examplePayments [exampleUtxo ''a'' 2000]
       (sum_list (map outSatoshis ?ext2))
       (map outAddress ?ext2) sweepRate (case Some True of None \<Rightarrow> False | Some b \<Rightarrow> b)
       (case None of None \<Rightarrow> False | Some b \<Rightarrow> b))
      > selectedTotalSat (selectInputUtxos examplePayments [exampleUtxo ''a'' 2000]
       (sum_list (map outSatoshis ?ext2))
       (map outAddress ?ext2) sweepRate (case Some True of None \<Rightarrow> False | Some b \<Rightarrow> b)
       (case None of None \<Rightarrow> False | Some b \<Rightarrow> b))"
    unfolding sel2 vals2 by simp
  have run2: "buildPaymentTx examplePayments [exampleUtxo ''a'' 2000] ?ds2 ''C'' sweepRate
      (Some True) None = Inl (DustOutput 0 80 1920)"
    by code_simp
  have ne2: "?ds2 \<noteq> []" by simp
  note dust = buildPaymentTx_shortfall [OF conv2 valid ne2 short2]
  let ?ds3 = "[\<lparr>address = ''A'', mainValue = Some (10000 / 10 ^ 8)\<rparr>]"
  let ?ext3 = "[\<lparr>outAddress = ''A'', outSatoshis = 10000\<rparr>]"
  have conv3: "convertDesiredOutputs examplePayments 0 ?ds3 = Inr ?ext3"
    by code_simp
  have sel3: "selectInputUtxos examplePayments [exampleUtxo ''a'' 5000]
       (sum_list (map outSatoshis ?ext3))
       (map outAddress ?ext3) sweepRate (case None of None \<Rightarrow> False | Some b \<Rightarrow> b)
       (case None of None \<Rightarrow> False | Some b \<Rightarrow> b) = shortSelection"
    by (simp add: shortSelection_def)
  have vals3: "selectedTotalSat shortSelection = 5000" "feeSat shortSelection = 2260"
    by code_simp+
  have short3: "sum_list (map outSatoshis ?ext3)
      + feeSat (selectInputUtxos examplePayments [exampleUtxo ''a'' 5000]
       (sum_list (map outSatoshis ?ext3))
       (map outAddress ?ext3) sweepRate (case None of None \<Rightarrow> False | Some b \<Rightarrow> b)
       (case None of None \<Rightarrow> False | Some b \<Rightarrow> b))
      > selectedTotalSat (selectInputUtxos examplePayments [exampleUtxo ''a'' 5000]
       (sum_list (map outSatoshis ?ext3))
       (map outAddress ?ext3) sweepRate (case None of None \<Rightarrow> False | Some b \<Rightarrow> b)
       (case None of None \<Rightarrow> False | Some b \<Rightarrow> b))"
    unfolding sel3 vals3 by simp
  have run3: "buildPaymentTx examplePayments [exampleUtxo ''a'' 5000] ?ds3 ''C'' sweepRate
      None None = Inl (InsufficientUtxos 5000 10000 2260)"
    by code_simp
  have ne3: "?ds3 \<noteq> []" by simp
  note insufficient = buildPaymentTx_shortfall [OF conv3 valid ne3 short3]
  from full dust insufficient run1 run2 run3 vals1 vals2 vals3 show ?thesis
    by (simp add: sweepPlan_def examplePayments_def)
qed

text \<open>
  Claim C3 as stated fails where there is no desired output: with all unspent outputs
  used and none at hand, the external total 0 equals the input total 0 and the fee of
  1000 exceeds it, no external output is at or below the dust threshold, and yet the
  call fails, with neither \<open>DustOutput\<close> nor a plan: the fee share is the fee divided
  by zero.
\<close>

theorem buildPaymentTx_shortfall_counterexample:
  "convertDesiredOutputs examplePayments 0 [] = Inr []
   \<and> isValidAddress examplePayments ''C''
   \<and> selectedTotalSat emptySelection = 0
   \<and> feeSat emptySelection = 1000
   \<and> sum_list (map outSatoshis ([] :: BitcoinishTxOutputSatoshis list)) + feeSat emptySelection
       > selectedTotalSat emptySelection
   \<and> sum_list (map outSatoshis ([] :: BitcoinishTxOutputSatoshis list))
       = selectedTotalSat emptySelection
   \<and> buildPaymentTx examplePayments [] [] ''C'' sweepRate (Some True) None = Inl NotANumber"
proof -
  have "selectedTotalSat emptySelection = 0" "feeSat emptySelection = 1000"
    by code_simp+
  moreover have "buildPaymentTx examplePayments [] [] ''C'' sweepRate (Some True) None
      = Inl NotANumber"
    by code_simp
  moreover have "isValidAddress examplePayments ''C''" by code_simp
  ultimately show ?thesis by simp
qed

section \<open>C4: loose change equal to the number of change outputs\<close>

text \<open>
  Claim C4 at its boundary. One change output survives and the loose change is 1, equal
  to the number of change outputs. The source tests
  \<^verbatim>\<open>looseChange / changeOutputs.length > 1\<close>, so nothing is added to the change output
  and the whole loose change goes to the fee: the plan has a change output of 1 and a
  fee of 1001, where the claim has a change output of 2 and a fee of 1000. The same
  holds for every configuration and every non-empty list of change outputs when the
  loose change equals their number.
\<close>

theorem reconcileLooseChange_boundary:
  "buildPaymentTx looseBoundaryPayments [exampleUtxo ''a'' 10002]
     [\<lparr>address = ''A'', mainValue = Some (9000 / 10 ^ 8)\<rparr>] ''C''
     \<lparr>feeRate = 1000, feeRateType = Base\<rparr> None None = Inr looseBoundaryPlan
   \<and> allocateChange looseBoundaryPayments 2 3 (createWeightedChangeOutputs 2 ''C'')
       = [\<lparr>outAddress = ''C'', outSatoshis = 1\<rparr>]
   \<and> reconcileLooseChange looseBoundaryPayments ''C'' [\<lparr>outAddress = ''C'', outSatoshis = 1\<rparr>]
        1 1000 2
       = Inr ([\<lparr>outAddress = ''C'', outSatoshis = 1\<rparr>], 1001, 1)
   \<and> changeOutputs looseBoundaryPlan = [\<lparr>outAddress = ''C'', outSatoshis = 1\<rparr>]
   \<and> fee looseBoundaryPlan = 1001
   \<and> reconcileLooseChange P a (c # cs) (int (length (c # cs))) f t
       = Inr (c # cs, f + int (length (c # cs)), t - int (length (c # cs)))"
proof -
  have "buildPaymentTx looseBoundaryPayments [exampleUtxo ''a'' 10002]
     [\<lparr>address = ''A'', mainValue = Some (9000 / 10 ^ 8)\<rparr>] ''C''
     \<lparr>feeRate = 1000, feeRateType = Base\<rparr> None None = Inr looseBoundaryPlan"
    by code_simp
  moreover have "allocateChange looseBoundaryPayments 2 3 (createWeightedChangeOutputs 2 ''C'')
       = [\<lparr>outAddress = ''C'', outSatoshis = 1\<rparr>]"
    by code_simp
  moreover have "reconcileLooseChange looseBoundaryPayments ''C''
        [\<lparr>outAddress = ''C'', outSatoshis = 1\<rparr>] 1 1000 2
       = Inr ([\<lparr>outAddress = ''C'', outSatoshis = 1\<rparr>], 1001, 1)"
    by code_simp
  moreover have "reconcileLooseChange P a (c # cs) (int (length (c # cs))) f t
       = Inr (c # cs, f + int (length (c # cs)), t - int (length (c # cs)))"
    by (simp add: reconcileLooseChange_def)
  ultimately show ?thesis
    by (simp add: looseBoundaryPlan_def)
qed

section \<open>C5: lower bounds of the fee\<close>

text \<open>
  Claim C5 on the code. With \<open>useAllUtxos\<close> set and less than the whole balance paid,
  the fee is estimated for no change output, and the change handling, which only ever
  lowers the fee, adds a change output without pricing it: the plan has one input, one
  external and one change output and a fee of 1920, where the configured \<open>minTxFee\<close>
  of 10 base units per vbyte amounts to 2260 for this shape. The same payment without
  \<open>useAllUtxos\<close> yields a plan of the same shape with a fee of 2260.
\<close>

theorem buildPaymentTx_sweep_fee_below_minTxFee:
  "buildPaymentTx minFeePayments [exampleUtxo ''a'' 100000]
     [\<lparr>address = ''A'', mainValue = Some (50000 / 10 ^ 8)\<rparr>] ''C''
     sweepRate (Some True) None = Inr minFeePlan
   \<and> minTxFee minFeePayments = Some \<lparr>feeRate = 10, feeRateType = BasePerWeight\<rparr>
   \<and> feeRateToSatoshis minFeePayments \<lparr>feeRate = 10, feeRateType = BasePerWeight\<rparr>
        (int (length (inputs minFeePlan))) (int (length (changeOutputs minFeePlan)))
        (map outAddress (externalOutputs minFeePlan)) = 2260
   \<and> fee minFeePlan = 1920
   \<and> buildPaymentTx minFeePayments [exampleUtxo ''a'' 100000]
     [\<lparr>address = ''A'', mainValue = Some (50000 / 10 ^ 8)\<rparr>] ''C''
     sweepRate None None = Inr minFeeTargetedPlan
   \<and> length (inputs minFeeTargetedPlan) = length (inputs minFeePlan)
   \<and> length (changeOutputs minFeeTargetedPlan) = length (changeOutputs minFeePlan)
   \<and> map outAddress (externalOutputs minFeeTargetedPlan)
       = map outAddress (externalOutputs minFeePlan)
   \<and> fee minFeeTargetedPlan = 2260"
proof -
  have "buildPaymentTx minFeePayments [exampleUtxo ''a'' 100000]
     [\<lparr>address = ''A'', mainValue = Some (50000 / 10 ^ 8)\<rparr>] ''C''
     sweepRate (Some True) None = Inr minFeePlan"
    by code_simp
  moreover have "buildPaymentTx minFeePayments [exampleUtxo ''a'' 100000]
     [\<lparr>address = ''A'', mainValue = Some (50000 / 10 ^ 8)\<rparr>] ''C''
     sweepRate None None = Inr minFeeTargetedPlan"
    by code_simp
  moreover have "feeRateToSatoshis minFeePayments \<lparr>feeRate = 10, feeRateType = BasePerWeight\<rparr>
        (int (length (inputs minFeePlan))) (int (length (changeOutputs minFeePlan)))
        (map outAddress (externalOutputs minFeePlan)) = 2260"
    by (simp add: feeRateToSatoshis_def estimateTxSize_def minFeePlan_def)
  ultimately show ?thesis
    by (simp add: minFeePayments_def examplePayments_def minFeePlan_def minFeeTargetedPlan_def)
qed

section \<open>C6: broadcast is idempotent for a transaction already in the mempool\<close>

text \<open>
  Claim C6. For every signed transaction, \<open>broadcastTransaction\<close> returns the id of
  the transaction when the facade's \<open>sendTx\<close> succeeds, and also when it throws an
  error whose message begins with \<open>-27\<close>; an error whose message does not begin with
  \<open>-27\<close> (or that has no message) is thrown on to the caller as it is.
\<close>

theorem broadcastTransaction_idempotent:
  "(\<forall>txId. sendTx (signedHex tx) = Inr txId \<longrightarrow>
       snd (broadcastTransaction errorMessage sendTx tx) = Inr \<lparr>resultId = signedId tx\<rparr>)
   \<and> (\<forall>e m. sendTx (signedHex tx) = Inl e \<and> errorMessage e = Some m \<and> startsWith m ''-27'' \<longrightarrow>
       snd (broadcastTransaction errorMessage sendTx tx) = Inr \<lparr>resultId = signedId tx\<rparr>)
   \<and> (\<forall>e. sendTx (signedHex tx) = Inl e
          \<and> \<not> startsWith (case errorMessage e of None \<Rightarrow> '''' | Some m \<Rightarrow> m) ''-27'' \<longrightarrow>
       snd (broadcastTransaction errorMessage sendTx tx) = Inl e)"
  by (auto simp: broadcastTransaction_def Let_def)

theorem broadcastTransaction_idempotent_witness:
  "mempoolFacade (signedHex \<lparr>signedId = ''t1'', signedHex = ''beef''\<rparr>) = Inr ''t1''
   \<and> snd (broadcastTransaction (\<lambda>e. e) mempoolFacade \<lparr>signedId = ''t1'', signedHex = ''beef''\<rparr>)
       = Inr \<lparr>resultId = ''t1''\<rparr>
   \<and> mempoolFacade (signedHex \<lparr>signedId = ''t2'', signedHex = ''cafe''\<rparr>)
       = Inl (Some ''-27: transaction already in block chain'')
   \<and> startsWith ''-27: transaction already in block chain'' ''-27''
   \<and> snd (broadcastTransaction (\<lambda>e. e) mempoolFacade \<lparr>signedId = ''t2'', signedHex = ''cafe''\<rparr>)
       = Inr \<lparr>resultId = ''t2''\<rparr>
   \<and> rejectingFacade (signedHex \<lparr>signedId = ''t2'', signedHex = ''cafe''\<rparr>)
       = Inl (Some ''-25: missing inputs'')
   \<and> \<not> startsWith ''-25: missing inputs'' ''-27''
   \<and> snd (broadcastTransaction (\<lambda>e. e) rejectingFacade \<lparr>signedId = ''t2'', signedHex = ''cafe''\<rparr>)
       = Inl (Some ''-25: missing inputs'')"
  using broadcastTransaction_idempotent
      [of mempoolFacade "\<lparr>signedId = ''t1'', signedHex = ''beef''\<rparr>" "\<lambda>e. e"]
    broadcastTransaction_idempotent
      [of mempoolFacade "\<lparr>signedId = ''t2'', signedHex = ''cafe''\<rparr>" "\<lambda>e. e"]
    broadcastTransaction_idempotent
      [of rejectingFacade "\<lparr>signedId = ''t2'', signedHex = ''cafe''\<rparr>" "\<lambda>e. e"]
  by (simp add: startsWith_def mempoolFacade_def rejectingFacade_def)

section \<open>C7: the activity sequence\<close>

text \<open>
  Claim C7. For every payment that the classifier turns into a balance activity, the
  activity sequence is the ledger version padded with zeros to 12 characters, a dot,
  the index in the ledger padded to 8 characters, a dot, and \<open>00\<close> for an outgoing or
  \<open>01\<close> for an incoming activity. The activity is outgoing iff the source address is
  the address, and incoming iff it is not and the destination address is. So at the
  same ledger version and index an outgoing activity sorts before an incoming one in
  the order of strings.
\<close>

theorem paymentToBalanceActivities_sequence:
  assumes "paymentToBalanceActivities nt getLedger addr tx = Inr (Some a)"
  shows "activitySequence a
           = padLeft (numberToString (ledgerVersion tx)) 12 (CHR ''0'') @ ''.''
             @ padLeft (numberToString (indexInLedger tx)) 8 (CHR ''0'') @ ''.''
             @ (if activityType a = Out then ''00'' else ''01'')
       \<and> (activityType a = Out \<longleftrightarrow> sourceAddress tx = addr)
       \<and> (activityType a = In \<longleftrightarrow> sourceAddress tx \<noteq> addr \<and> destinationAddress tx = addr)
       \<and> (\<forall>nt' getLedger' addr' tx' b.
             paymentToBalanceActivities nt' getLedger' addr' tx' = Inr (Some b)
             \<and> ledgerVersion tx' = ledgerVersion tx \<and> indexInLedger tx' = indexInLedger tx
             \<and> activityType a = Out \<and> activityType b = In \<longrightarrow>
             stringLess (activitySequence a) (activitySequence b))"
proof -
  have seq: "activitySequence b
           = padLeft (numberToString (ledgerVersion tx')) 12 (CHR ''0'') @ ''.''
             @ padLeft (numberToString (indexInLedger tx')) 8 (CHR ''0'') @ ''.''
             @ (if activityType b = Out then ''00'' else ''01'')"
    and dir: "activityType b = Out \<longleftrightarrow> sourceAddress tx' = addr'"
      "activityType b = In \<longleftrightarrow> sourceAddress tx' \<noteq> addr' \<and> destinationAddress tx' = addr'"
    if "paymentToBalanceActivities nt' getLedger' addr' tx' = Inr (Some b)"
    for nt' and getLedger' :: "nat \<Rightarrow> 'x + RippleLedger" and addr' tx' b
    using that
    by (auto simp: paymentToBalanceActivities_def Let_def
        split: if_splits option.splits sum.splits)
  have order: "stringLess (activitySequence a) (activitySequence b)"
    if b: "paymentToBalanceActivities nt' getLedger' addr' tx' = Inr (Some b)"
      and same: "ledgerVersion tx' = ledgerVersion tx" "indexInLedger tx' = indexInLedger tx"
      and types: "activityType a = Out" "activityType b = In"
    for nt' and getLedger' :: "nat \<Rightarrow> 'y + RippleLedger" and addr' tx' b
  proof -
    let ?p = "padLeft (numberToString (ledgerVersion tx)) 12 (CHR ''0'') @ ''.''
             @ padLeft (numberToString (indexInLedger tx)) 8 (CHR ''0'') @ ''.''"
    from seq [OF assms] types(1) have "activitySequence a = ?p @ ''00''" by simp
    moreover from seq [OF b] types(2) same have "activitySequence b = ?p @ ''01''" by simp
    moreover have "stringLess (?p @ ''00'') (?p @ ''01'')"
      unfolding stringLess_append by simp
    ultimately show ?thesis by simp
  qed
  from seq [OF assms] dir [OF assms] order show ?thesis by blast
qed

theorem paymentToBalanceActivities_sequence_witness:
  "paymentToBalanceActivities ''mainnet'' exampleGetLedger ''rSender'' examplePayment
     = Inr (Some exampleOutActivity)
   \<and> paymentToBalanceActivities ''mainnet'' exampleGetLedger ''rReceiver'' examplePayment
     = Inr (Some exampleInActivity)
   \<and> activitySequence exampleOutActivity = ''000000001234.00000005.00''
   \<and> activityType exampleOutActivity = Out
   \<and> sourceAddress examplePayment = ''rSender''
   \<and> activityType exampleInActivity = In
   \<and> stringLess (activitySequence exampleOutActivity) (activitySequence exampleInActivity)"
proof -
  from paymentToBalanceActivities_sequence [OF examplePayment_out]
  have "\<forall>nt' getLedger' addr' tx' b.
             paymentToBalanceActivities nt' (getLedger' :: nat \<Rightarrow> string + RippleLedger) addr' tx'
               = Inr (Some b)
             \<and> ledgerVersion tx' = ledgerVersion examplePayment
             \<and> indexInLedger tx' = indexInLedger examplePayment
             \<and> activityType exampleOutActivity = Out \<and> activityType b = In \<longrightarrow>
             stringLess (activitySequence exampleOutActivity) (activitySequence b)"
    by blast
  with examplePayment_in
  have "stringLess (activitySequence exampleOutActivity) (activitySequence exampleInActivity)"
    by (simp add: exampleOutActivity_def exampleInActivity_def)
  with examplePayment_out examplePayment_in show ?thesis
    by (simp add: exampleOutActivity_def exampleInActivity_def examplePayment_def)
qed

section \<open>C8: the ledger window\<close>

text \<open>
  Claim C8. When the server retains the ledgers \<open>minLedger\<close> to \<open>maxLedger\<close>, reported
  as the string \<^verbatim>\<open>min-max\<close>, the window that \<open>resolveFromToLedgers\<close> returns starts at
  the larger of the requested start and \<open>minLedger\<close> and ends at the smaller of the
  requested end and \<open>maxLedger\<close>, with the server's bound where nothing is requested; a
  request is a ledger number or the confirmation number of an activity. A request
  beyond what the server retains is narrowed with one warning per bound, and the call
  returns.
\<close>

theorem resolveFromToLedgers_window:
  assumes "getServerInfo = Inr serverInfo"
    and "completeLedgers serverInfo
           = numberToString minLedger @ ''-'' @ numberToString maxLedger"
  shows "resolveFromToLedgers getServerInfo fromOption toOption
       = Inr ((case requestedLedger fromOption of
                 None \<Rightarrow> []
               | Some r \<Rightarrow> if r < int minLedger
                            then [DoesNotGoBackTo r (Some (int minLedger))] else [])
              @ (case requestedLedger toOption of
                   None \<Rightarrow> []
                 | Some r \<Rightarrow> if r > int maxLedger
                              then [DoesNotGoUpTo r (Some (int maxLedger))] else []),
              \<lparr>windowFrom = Some (case requestedLedger fromOption of
                                    None \<Rightarrow> int minLedger
                                  | Some r \<Rightarrow> max r (int minLedger)),
               windowTo = Some (case requestedLedger toOption of
                                  None \<Rightarrow> int maxLedger
                                | Some r \<Rightarrow> min r (int maxLedger))\<rparr>)"
  using assms
  by (simp add: resolveFromToLedgers_def Let_def splitOn_range parseIntAt_def
      parseInt_numberToString split: option.splits)

theorem resolveFromToLedgers_window_witness:
  "exampleServerInfo = Inr \<lparr>completeLedgers = ''1000-2000''\<rparr>
   \<and> completeLedgers \<lparr>completeLedgers = ''1000-2000''\<rparr>
       = numberToString 1000 @ ''-'' @ numberToString 2000
   \<and> resolveFromToLedgers exampleServerInfo (Some (AtLedger 500)) (Some (AtLedger 2500))
       = Inr ([DoesNotGoBackTo 500 (Some 1000), DoesNotGoUpTo 2500 (Some 2000)],
              \<lparr>windowFrom = Some 1000, windowTo = Some 2000\<rparr>)
   \<and> resolveFromToLedgers exampleServerInfo None (Some (AtActivity exampleOutActivity))
       = Inr ([], \<lparr>windowFrom = Some 1000, windowTo = Some 1234\<rparr>)"
proof -
  have info: "exampleServerInfo = Inr \<lparr>completeLedgers = ''1000-2000''\<rparr>"
    by (simp add: exampleServerInfo_def)
  have range: "completeLedgers \<lparr>completeLedgers = ''1000-2000''\<rparr>
       = numberToString 1000 @ ''-'' @ numberToString 2000"
    by code_simp
  from resolveFromToLedgers_window [OF info range, of "Some (AtLedger 500)" "Some (AtLedger 2500)"]
    resolveFromToLedgers_window [OF info range, of None "Some (AtActivity exampleOutActivity)"]
    info range
  show ?thesis
    by (simp add: requestedLedger_def exampleOutActivity_def)
qed

section \<open>C9: the network symbol of a balance activity\<close>

text \<open>
  Claim C9 on the code. Every balance activity that the Ripple classifier produces
  carries the network symbol \<open>TRX\<close>, next to the asset symbol \<open>XRP\<close> of the balance
  change it reports: the claim wants the symbol of the Ripple network there.
\<close>

theorem paymentToBalanceActivities_networkSymbol:
  "(case paymentToBalanceActivities nt getLedger addr tx of
      Inl e \<Rightarrow> True
    | Inr None \<Rightarrow> True
    | Inr (Some a) \<Rightarrow> networkSymbol a = ''TRX'' \<and> assetSymbol a = ''XRP'')
   \<and> paymentToBalanceActivities ''mainnet'' exampleGetLedger ''rSender'' examplePayment
       = Inr (Some exampleOutActivity)
   \<and> networkSymbol exampleOutActivity = ''TRX''
   \<and> assetSymbol exampleOutActivity = ''XRP''"
proof -
  have "networkSymbol a = ''TRX'' \<and> assetSymbol a = ''XRP''"
    if "paymentToBalanceActivities nt getLedger addr tx = Inr (Some a)" for a
    using that
    by (auto simp: paymentToBalanceActivities_def Let_def find_Some_iff
        split: if_splits option.splits sum.splits)
  then have "(case paymentToBalanceActivities nt getLedger addr tx of
      Inl e \<Rightarrow> True
    | Inr None \<Rightarrow> True
    | Inr (Some a) \<Rightarrow> networkSymbol a = ''TRX'' \<and> assetSymbol a = ''XRP'')"
    by (simp split: sum.splits option.splits)
  with examplePayment_out show ?thesis
    by (simp add: exampleOutActivity_def)
qed

section \<open>C10: the id of a broadcast result\<close>

text \<open>
  Claim C10. Whenever \<open>broadcastTransaction\<close> returns a result, its id is the id of
  the signed transaction. When \<open>sendTx\<close> succeeds with a different txid, that txid only
  appears in the warning logged, and the result still carries the original id.
\<close>

theorem broadcastTransaction_returns_original_id:
  "(\<forall>r. snd (broadcastTransaction errorMessage sendTx tx) = Inr r \<longrightarrow> resultId r = signedId tx)
   \<and> (\<forall>txId. sendTx (signedHex tx) = Inr txId \<longrightarrow>
        broadcastTransaction errorMessage sendTx tx
          = ((if signedId tx \<noteq> txId then [TxidMismatch txId (signedId tx)] else []),
             Inr \<lparr>resultId = signedId tx\<rparr>))"
  by (auto simp: broadcastTransaction_def Let_def split: sum.splits)

theorem broadcastTransaction_returns_original_id_witness:
  "renamingFacade (signedHex \<lparr>signedId = ''t1'', signedHex = ''beef''\<rparr>) = Inr ''other''
   \<and> ''t1'' \<noteq> ''other''
   \<and> broadcastTransaction (\<lambda>e. e) renamingFacade \<lparr>signedId = ''t1'', signedHex = ''beef''\<rparr>
       = ([TxidMismatch ''other'' ''t1''], Inr \<lparr>resultId = ''t1''\<rparr>)
   \<and> resultId \<lparr>resultId = ''t1''\<rparr> = ''t1''"
  using broadcastTransaction_returns_original_id
      [of "\<lambda>e. e" renamingFacade "\<lparr>signedId = ''t1'', signedHex = ''beef''\<rparr>"]
  by (simp add: renamingFacade_def)

section \<open>The errors that should not happen\<close>

text \<open>
  \<open>buildPaymentTx\<close> has two errors for states that ``should never happen'': a negative
  total change and a negative loose change. Neither is reachable, whatever the input.
\<close>

theorem buildPaymentTx_invariant_errors_unreachable:
  "buildPaymentTx P unusedUtxos desiredOutputs changeAddr rate useAll useUnconf
     \<noteq> Inl NegativeTotalChange
   \<and> buildPaymentTx P unusedUtxos desiredOutputs changeAddr rate useAll useUnconf
     \<noteq> Inl NegativeLooseChange"
proof -
  let ?build = "buildPaymentTx P unusedUtxos desiredOutputs changeAddr rate useAll useUnconf"
  have "e \<noteq> NegativeTotalChange \<and> e \<noteq> NegativeLooseChange" if build: "?build = Inl e" for e
  proof (cases "convertDesiredOutputs P 0 desiredOutputs")
    case (Inl e')
    with build have "e = e'" by (simp add: buildPaymentTx_def Let_def)
    with convertDesiredOutputs_errors [OF Inl] show ?thesis by simp
  next
    case conv: (Inr ext0)
    define sel where "sel = selectInputUtxos P unusedUtxos (sum_list (map outSatoshis ext0))
             (map outAddress ext0) rate
             (case useAll of None \<Rightarrow> False | Some b \<Rightarrow> b)
             (case useUnconf of None \<Rightarrow> False | Some b \<Rightarrow> b)"
    show ?thesis
    proof (cases "isValidAddress P changeAddr")
      case False
      with build conv show ?thesis by (simp add: buildPaymentTx_def Let_def)
    next
      case valid: True
      show ?thesis
      proof (cases "accountForSweep P ext0 (sum_list (map outSatoshis ext0))
                      (selectedTotalSat sel) (feeSat sel)")
        case (Inl e')
        with build conv valid have "e = e'"
          by (simp add: buildPaymentTx_def Let_def sel_def)
        with accountForSweep_errors [OF Inl] show ?thesis by simp
      next
        case (Inr r)
        obtain ext extTotal fee1 where r: "r = (ext, extTotal, fee1)" by (cases r) auto
        from accountForSweep_Inr(2) [OF Inr [unfolded r] refl]
        have "extTotal + fee1 \<le> selectedTotalSat sel" .
        from handleChange_total [OF this]
        obtain r' where "handleChange P rate changeAddr (int (length unusedUtxos))
            (int (length (selectedUtxos sel))) (map outAddress ext0) (selectedTotalSat sel)
            extTotal fee1 = Inr r'"
          by blast
        with build conv valid Inr r show ?thesis
          by (cases r') (simp add: buildPaymentTx_def Let_def sel_def)
      qed
    qed
  qed
  then show ?thesis by blast
qed

section \<open>The fee of a plan when not all unspent outputs are used\<close>

text \<open>
  Every fee estimate is raised to \<open>minTxFee\<close> (if configured) and to
  \<open>networkMinRelayFee\<close> and then rounded up. For every plan that \<open>buildPaymentTx\<close>
  returns for a non-empty list of desired outputs, the final fee is at least
  \<open>networkMinRelayFee\<close>; and when \<open>useAllUtxos\<close> is not set and \<open>minTxFee\<close> is
  configured, with a rate that is not negative if it is per weight, the final fee is at
  least the base-unit equivalent of \<open>minTxFee\<close> for the plan's inputs, change outputs
  and external outputs.
\<close>

theorem buildPaymentTx_targeted_fee_floor:
  assumes run: "buildPaymentTx P unusedUtxos desiredOutputs changeAddr rate useAll useUnconf
                  = Inr plan"
    and nonempty: "desiredOutputs \<noteq> []"
  shows "networkMinRelayFee P \<le> fee plan
       \<and> (\<forall>m. minTxFee P = Some m \<and> (feeRateType m = BasePerWeight \<longrightarrow> 0 \<le> feeRate m)
              \<and> useAll \<noteq> Some True \<longrightarrow>
             feeRateToSatoshis P m (int (length (inputs plan)))
               (int (length (changeOutputs plan))) (map outAddress (externalOutputs plan))
             \<le> of_int (fee plan))
       \<and> (\<forall>r n c a. networkMinRelayFee P \<le> estimateTxFee P r n c a)
       \<and> (\<forall>m r n c a. minTxFee P = Some m \<longrightarrow>
             feeRateToSatoshis P m n c a \<le> of_int (estimateTxFee P r n c a))"
proof -
  define ua where "ua = (case useAll of None \<Rightarrow> False | Some b \<Rightarrow> b)"
  from run obtain ext0 sel ext extTotal fee1 ch fee2 t where
    conv: "convertDesiredOutputs P 0 desiredOutputs = Inr ext0"
    and "isValidAddress P changeAddr"
    and sel: "sel = selectInputUtxos P unusedUtxos (sum_list (map outSatoshis ext0))
             (map outAddress ext0) rate
             (case useAll of None \<Rightarrow> False | Some b \<Rightarrow> b)
             (case useUnconf of None \<Rightarrow> False | Some b \<Rightarrow> b)"
    and sweep: "accountForSweep P ext0 (sum_list (map outSatoshis ext0)) (selectedTotalSat sel)
         (feeSat sel) = Inr (ext, extTotal, fee1)"
    and hc: "handleChange P rate changeAddr (int (length unusedUtxos))
         (int (length (selectedUtxos sel))) (map outAddress ext0) (selectedTotalSat sel)
         extTotal fee1 = Inr (ch, fee2, t)"
    and plan: "plan = \<lparr>inputs = selectedUtxos sel, outputs = ext @ ch, fee = fee2, change = t,
             changeAddress = (if length ch = 1 then Some (outAddress (hd ch)) else None),
             changeOutputs = ch, externalOutputs = ext, externalOutputTotal = extTotal\<rparr>"
    by (rule buildPaymentTx_Inr)
  let ?n = "int (length (selectedUtxos sel))"
  let ?addrs = "map outAddress ext0"
  let ?total0 = "sum_list (map outSatoshis ext0)"
  let ?tc = "determineTargetChangeOutputCount P (int (length unusedUtxos)) ?n"
  have addrs: "map outAddress ext = ?addrs" by (rule accountForSweep_Inr(3) [OF sweep refl])
  have fee01: "feeSat sel \<le> fee1" by (rule accountForSweep_Inr(4) [OF sweep refl])
  from conv nonempty have "ext0 \<noteq> []"
    using convertDesiredOutputs_length [OF conv] by auto
  with convertDesiredOutputs_Inr [OF conv] have pos: "0 < ?total0"
    by (intro sum_list_outSatoshis_pos) simp_all
  have not_empty: "\<not> (selectedTotalSat sel = 0 \<and> feeSat sel = 0)"
  proof
    assume "selectedTotalSat sel = 0 \<and> feeSat sel = 0"
    with pos sweep show False by (simp add: accountForSweep_def)
  qed
  have mode: "(ua \<and> feeSat sel = estimateTxFee P rate ?n 0 ?addrs)
      \<or> (\<not> ua \<and> length (selectedUtxos sel) = 1
          \<and> feeSat sel = estimateTxFee P rate 1 0 ?addrs
          \<and> ?total0 + feeSat sel \<le> selectedTotalSat sel
          \<and> selectedTotalSat sel \<le> ?total0 + feeSat sel + dustThreshold P)
      \<or> (\<not> ua \<and> feeSat sel = estimateTxFee P rate ?n ?tc ?addrs)"
  proof (cases ua)
    case True
    with selectInputUtxos_sweep [of P unusedUtxos ?total0 ?addrs rate]
    show ?thesis unfolding sel ua_def [symmetric] by simp
  next
    case False
    with selectInputUtxos_targeted [of P unusedUtxos ?total0 ?addrs rate] not_empty
    show ?thesis unfolding sel ua_def [symmetric] by auto
  qed
  have relay0: "networkMinRelayFee P \<le> feeSat sel"
    using mode by (auto simp: estimateTxFee_ge_relay)
  have relay: "networkMinRelayFee P \<le> fee plan"
    using handleChange_Inr(3) [OF hc] relay0 fee01 by (auto simp: plan)
  have floor_targeted: "feeRateToSatoshis P m ?n (int (length ch)) ?addrs \<le> of_int fee2"
    if m: "minTxFee P = Some m" and nn: "feeRateType m = BasePerWeight \<longrightarrow> 0 \<le> feeRate m"
      and targeted: "\<not> ua" for m
  proof -
    from handleChange_fee_cases [OF hc]
    consider (recalculated) k where "1 \<le> k" "length ch \<le> k"
        "estimateTxFee P rate ?n (int k) ?addrs \<le> fee2"
      | (kept) "fee1 \<le> fee2" "int (length ch) \<le> ?tc"
        "selectedTotalSat sel - extTotal - fee1 \<le> dustThreshold P \<longrightarrow> ch = []"
      by blast
    then show ?thesis
    proof cases
      case recalculated
      have "feeRateToSatoshis P m ?n (int (length ch)) ?addrs
          \<le> feeRateToSatoshis P m ?n (int k) ?addrs"
        using recalculated(2) by (intro feeRateToSatoshis_mono [OF nn]) simp
      also have "\<dots> \<le> of_int (estimateTxFee P rate ?n (int k) ?addrs)"
        by (rule estimateTxFee_ge_minTxFee [OF m])
      also have "\<dots> \<le> of_int fee2" using recalculated(3) by simp
      finally show ?thesis .
    next
      case kept
      from mode targeted consider
        (ideal) "length (selectedUtxos sel) = 1"
          "feeSat sel = estimateTxFee P rate 1 0 ?addrs"
          "?total0 + feeSat sel \<le> selectedTotalSat sel"
          "selectedTotalSat sel \<le> ?total0 + feeSat sel + dustThreshold P"
        | (incremental) "feeSat sel = estimateTxFee P rate ?n ?tc ?addrs"
        by blast
      then show ?thesis
      proof cases
        case ideal
        from ideal(3) sweep have same: "extTotal = ?total0" "fee1 = feeSat sel"
          by (auto simp: accountForSweep_def)
        with ideal(4) kept(3) have "ch = []" by simp
        moreover have "feeRateToSatoshis P m 1 0 ?addrs
            \<le> of_int (estimateTxFee P rate 1 0 ?addrs)"
          by (rule estimateTxFee_ge_minTxFee [OF m])
        moreover have "estimateTxFee P rate 1 0 ?addrs \<le> fee2"
          using kept(1) same(2) ideal(2) by simp
        ultimately show ?thesis using ideal(1) by simp
      next
        case incremental
        have "feeRateToSatoshis P m ?n (int (length ch)) ?addrs
            \<le> feeRateToSatoshis P m ?n ?tc ?addrs"
          using kept(2) by (rule feeRateToSatoshis_mono [OF nn])
        also have "\<dots> \<le> of_int (estimateTxFee P rate ?n ?tc ?addrs)"
          by (rule estimateTxFee_ge_minTxFee [OF m])
        also have "\<dots> \<le> of_int fee2" using kept(1) fee01 incremental by simp
        finally show ?thesis .
      qed
    qed
  qed
  have ua_iff: "ua \<longleftrightarrow> useAll = Some True"
    by (cases useAll) (auto simp: ua_def)
  from relay floor_targeted show ?thesis
    by (simp add: plan addrs ua_iff estimateTxFee_ge_relay estimateTxFee_ge_minTxFee)
qed

theorem buildPaymentTx_targeted_fee_floor_witness:
  "buildPaymentTx minFeePayments [exampleUtxo ''a'' 100000]
     [\<lparr>address = ''A'', mainValue = Some (50000 / 10 ^ 8)\<rparr>] ''C''
     \<lparr>feeRate = 10, feeRateType = BasePerWeight\<rparr> None None = Inr minFeeTargetedPlan
   \<and> [\<lparr>address = ''A'', mainValue = Some (50000 / 10 ^ 8)\<rparr>] \<noteq> []
   \<and> minTxFee minFeePayments = Some \<lparr>feeRate = 10, feeRateType = BasePerWeight\<rparr>
   \<and> networkMinRelayFee minFeePayments \<le> fee minFeeTargetedPlan
   \<and> feeRateToSatoshis minFeePayments \<lparr>feeRate = 10, feeRateType = BasePerWeight\<rparr>
        (int (length (inputs minFeeTargetedPlan)))
        (int (length (changeOutputs minFeeTargetedPlan)))
        (map outAddress (externalOutputs minFeeTargetedPlan))
       \<le> of_int (fee minFeeTargetedPlan)
   \<and> fee minFeeTargetedPlan = 2260"
proof -
  have run: "buildPaymentTx minFeePayments [exampleUtxo ''a'' 100000]
     [\<lparr>address = ''A'', mainValue = Some (50000 / 10 ^ 8)\<rparr>] ''C''
     \<lparr>feeRate = 10, feeRateType = BasePerWeight\<rparr> None None = Inr minFeeTargetedPlan"
    by code_simp
  have ne: "[\<lparr>address = ''A'', mainValue = Some (50000 / 10 ^ 8)\<rparr>] \<noteq> []" by simp
  have m: "minTxFee minFeePayments = Some \<lparr>feeRate = 10, feeRateType = BasePerWeight\<rparr>"
    by (simp add: minFeePayments_def examplePayments_def)
  from buildPaymentTx_targeted_fee_floor [OF run ne] run m show ?thesis
    by (simp add: minFeeTargetedPlan_def)
qed

end
